theory Spec2Isabelle
  imports Complex_Main "HOL-Library.Word" "HOL-Library.Multiset"
begin

section \<open>JavaScript values used by the two screens\<close>

subsection \<open>Strings\<close>

text \<open>
  A JavaScript string is a sequence of UTF-16 code units. \<open>str\<close> embeds an ASCII
  literal; a code unit outside ASCII is written as its number (\<open>0xE9\<close> for e-acute).
\<close>

type_synonym jsstring = "16 word list"

definition str :: "string \<Rightarrow> jsstring" where
  "str s = map of_char s"

text \<open>
  \<open>String.prototype.trim\<close> removes leading and trailing WhiteSpace and LineTerminator
  code units (ECMAScript 12.2 and 12.3).
\<close>

definition isWhiteSpace :: "16 word \<Rightarrow> bool" where
  "isWhiteSpace c \<longleftrightarrow>
     c = 0x0009 \<or> c = 0x000A \<or> c = 0x000B \<or> c = 0x000C \<or> c = 0x000D \<or> c = 0x0020 \<or>
     c = 0x00A0 \<or> c = 0x1680 \<or> (0x2000 \<le> c \<and> c \<le> 0x200A) \<or> c = 0x2028 \<or> c = 0x2029 \<or>
     c = 0x202F \<or> c = 0x205F \<or> c = 0x3000 \<or> c = 0xFEFF"

definition trim :: "jsstring \<Rightarrow> jsstring" where
  "trim s = rev (dropWhile isWhiteSpace (rev (dropWhile isWhiteSpace s)))"

text \<open>A string is truthy exactly when it is not empty.\<close>

definition truthy :: "jsstring \<Rightarrow> bool" where
  "truthy s \<longleftrightarrow> s \<noteq> []"

text \<open>\<open>a || b\<close> on strings.\<close>

definition or_else :: "jsstring \<Rightarrow> jsstring \<Rightarrow> jsstring" where
  "or_else a b = (if truthy a then a else b)"

subsection \<open>Numbers\<close>

text \<open>
  \<open>Date.now().toString()\<close> and template interpolation of \<open>Date.now()\<close>: the decimal
  digits of an integer, with a minus sign for a negative one.
\<close>

definition digit_char :: "nat \<Rightarrow> 16 word" where
  "digit_char d = of_nat (48 + d)"

fun digits_of :: "nat \<Rightarrow> jsstring" where
  "digits_of n = (if n < 10 then [digit_char n] else digits_of (n div 10) @ [digit_char (n mod 10)])"

declare digits_of.simps [simp del]

definition toString :: "int \<Rightarrow> jsstring" where
  "toString i = (if i < 0 then str ''-'' @ digits_of (nat (- i)) else digits_of (nat i))"

text \<open>
  The result of \<open>Number(s)\<close>. A finite result carries the exact mathematical value of
  the literal; the IEEE double the engine holds is that value rounded to nearest, ties
  to even. Only \<open>isNaN\<close> and \<open>\<le> 0\<close> are applied to it by the form, and both are
  decided on the mathematical value: a literal rounds to a double \<open>\<le> 0\<close> exactly when its
  value is at most \<open>2 ^ -1075\<close>, half of the least positive double.
\<close>

datatype jsnumber = NaN | PosInfinity | NegInfinity | Finite rat

definition isNaN :: "jsnumber \<Rightarrow> bool" where
  "isNaN x \<longleftrightarrow> x = NaN"

definition le_zero :: "jsnumber \<Rightarrow> bool" where
  "le_zero x =
     (case x of
        NaN \<Rightarrow> False
      | PosInfinity \<Rightarrow> False
      | NegInfinity \<Rightarrow> True
      | Finite v \<Rightarrow> v \<le> 1 / 2 ^ 1075)"

definition negate :: "jsnumber \<Rightarrow> jsnumber" where
  "negate x =
     (case x of
        NaN \<Rightarrow> NaN
      | PosInfinity \<Rightarrow> NegInfinity
      | NegInfinity \<Rightarrow> PosInfinity
      | Finite v \<Rightarrow> Finite (- v))"

definition isDigit :: "16 word \<Rightarrow> bool" where
  "isDigit c \<longleftrightarrow> 0x30 \<le> c \<and> c \<le> 0x39"

text \<open>The value of a digit in a radix up to 16, if the code unit is such a digit.\<close>

definition digit_in :: "nat \<Rightarrow> 16 word \<Rightarrow> nat option" where
  "digit_in radix c =
     (let v = (if 0x30 \<le> c \<and> c \<le> 0x39 then Some (unat c - 48)
               else if 0x61 \<le> c \<and> c \<le> 0x66 then Some (unat c - 87)
               else if 0x41 \<le> c \<and> c \<le> 0x46 then Some (unat c - 55)
               else None)
      in case v of None \<Rightarrow> None | Some d \<Rightarrow> if d < radix then Some d else None)"

text \<open>The value of a non-empty run of digits in the radix; \<open>None\<close> if a unit is no digit.\<close>

fun digits_value :: "nat \<Rightarrow> nat \<Rightarrow> jsstring \<Rightarrow> nat option" where
  "digits_value radix acc [] = Some acc"
| "digits_value radix acc (c # cs) =
     (case digit_in radix c of
        None \<Rightarrow> None
      | Some d \<Rightarrow> digits_value radix (acc * radix + d) cs)"

definition parse_digits :: "nat \<Rightarrow> jsstring \<Rightarrow> nat option" where
  "parse_digits radix s = (if s = [] then None else digits_value radix 0 s)"

text \<open>ExponentPart: \<open>e\<close> or \<open>E\<close>, an optional sign, one or more decimal digits.\<close>

definition parse_exponent :: "jsstring \<Rightarrow> int option" where
  "parse_exponent s =
     (case s of
        [] \<Rightarrow> Some 0
      | c # r \<Rightarrow>
          if c = 0x65 \<or> c = 0x45 then
            (case r of
               [] \<Rightarrow> None
             | d # ds \<Rightarrow>
                 if d = 0x2B then map_option int (parse_digits 10 ds)
                 else if d = 0x2D then map_option (\<lambda>n. - int n) (parse_digits 10 ds)
                 else map_option int (parse_digits 10 r))
          else None)"

definition scale10 :: "rat \<Rightarrow> int \<Rightarrow> rat" where
  "scale10 v e = (if 0 \<le> e then v * 10 ^ nat e else v / 10 ^ nat (- e))"

text \<open>
  StrUnsignedDecimalLiteral: \<open>Infinity\<close>, or digits with an optional fraction and an
  optional exponent, or a fraction alone with an optional exponent.
\<close>

definition parse_unsigned_decimal :: "jsstring \<Rightarrow> jsnumber" where
  "parse_unsigned_decimal s =
     (if s = str ''Infinity'' then PosInfinity
      else
        let ip = takeWhile isDigit s;
            r1 = dropWhile isDigit s;
            dot = (r1 \<noteq> [] \<and> hd r1 = 0x2E);
            fp = (if dot then takeWhile isDigit (tl r1) else []);
            r2 = (if dot then dropWhile isDigit (tl r1) else r1)
        in if ip = [] \<and> fp = [] then NaN
           else
             (case (digits_value 10 0 (ip @ fp), parse_exponent r2) of
                (Some m, Some e) \<Rightarrow> Finite (scale10 (of_nat m) (e - int (length fp)))
              | _ \<Rightarrow> NaN))"

text \<open>
  StringToNumber: surrounding white space is dropped; the empty string is \<open>0\<close>; a
  binary, octal or hexadecimal literal takes no sign; a decimal literal may be signed.
\<close>

definition Number :: "jsstring \<Rightarrow> jsnumber" where
  "Number s =
     (let t = trim s in
      if t = [] then Finite 0
      else if length t \<ge> 2 \<and> hd t = 0x30 \<and> (t ! 1 = 0x78 \<or> t ! 1 = 0x58) then
        (case parse_digits 16 (drop 2 t) of None \<Rightarrow> NaN | Some n \<Rightarrow> Finite (of_nat n))
      else if length t \<ge> 2 \<and> hd t = 0x30 \<and> (t ! 1 = 0x6F \<or> t ! 1 = 0x4F) then
        (case parse_digits 8 (drop 2 t) of None \<Rightarrow> NaN | Some n \<Rightarrow> Finite (of_nat n))
      else if length t \<ge> 2 \<and> hd t = 0x30 \<and> (t ! 1 = 0x62 \<or> t ! 1 = 0x42) then
        (case parse_digits 2 (drop 2 t) of None \<Rightarrow> NaN | Some n \<Rightarrow> Finite (of_nat n))
      else if hd t = 0x2B then parse_unsigned_decimal (tl t)
      else if hd t = 0x2D then negate (parse_unsigned_decimal (tl t))
      else parse_unsigned_decimal t)"

section \<open>Data model\<close>

text \<open>
  \<open>interface Parcelle\<close> of the three source files. The file-system variant of the form
  declares \<open>image\<close> without \<open>assetId\<close>; its records are the ones whose \<open>assetId\<close> is
  \<open>None\<close> (\<open>undefined\<close>, which \<open>JSON.stringify\<close> drops).
\<close>

record ImageRef =
  uri :: jsstring
  name :: jsstring
  assetId :: "jsstring option"

record Parcelle =
  id_p :: jsstring
  numeroDeLot :: jsstring
  etatDeParcelle :: jsstring
  nombreDeLogement :: jsstring
  acheve :: jsstring
  enCours :: jsstring
  image_p :: "ImageRef option"
  createdAt :: jsstring

text \<open>The keys of the form's \<open>errors\<close> object, and the object as a map from keys to messages.\<close>

datatype field = NumeroDeLot | EtatDeParcelle | NombreDeLogement | Acheve | EnCours

type_synonym errors = "field \<rightharpoonup> jsstring"

definition Object_keys :: "errors \<Rightarrow> field list" where
  "Object_keys e =
     filter (\<lambda>k. e k \<noteq> None) [NumeroDeLot, EtatDeParcelle, NombreDeLogement, Acheve, EnCours]"

definition msg_lot_requis :: jsstring where
  "msg_lot_requis = str ''N'' @ [0xB0] @ str '' de lot requis''"

definition msg_lot_existe :: jsstring where
  "msg_lot_existe = str ''Ce num'' @ [0xE9] @ str ''ro de lot existe d'' @ [0xE9, 0x6A, 0xE0]"

definition msg_etat_requis :: jsstring where
  "msg_etat_requis = [0xC9] @ str ''tat de parcelle requis''"

definition msg_nombre_requis :: jsstring where
  "msg_nombre_requis = str ''Nombre de logements requis''"

definition msg_nombre_positif :: jsstring where
  "msg_nombre_positif = str ''Doit '' @ [0xEA] @ str ''tre un nombre positif''"

section \<open>Effects\<close>

text \<open>
  The platform services are external. A call to one of them either returns or throws;
  which of the two, and what it returns, is given by an environment record, one field
  for each call site. What the program did to the outside world is kept in a trace.
\<close>

datatype error =
  StorageError | FileSystemError | MediaLibraryError | PickerError | SharingError
  | XlsxError | CallbackError

datatype cell = NumCell nat | StrCell jsstring

record worksheet =
  rows :: "cell option list list"
  cols :: "nat list"

record workbook =
  sheets :: "(jsstring \<times> worksheet) list"

datatype event =
    Alert jsstring jsstring
  | ConsoleError jsstring error
  | ConsoleWarn jsstring
  | ConsoleLog jsstring
  | ConsoleLogError error
  | CopyAsync jsstring jsstring
  | SaveToLibraryAsync jsstring
  | DeleteAsync jsstring
  | DeleteAssetsAsync "jsstring list"
  | OnSave Parcelle
  | RouterBack
  | XlsxWrite workbook
  | WriteAsStringAsync jsstring jsstring
  | ShareAsync jsstring

text \<open>
  \<open>storage\<close> is the value under \<open>STORAGE_KEY\<close> in AsyncStorage, read through
  \<open>JSON.parse\<close>: \<open>None\<close> when the key is absent. Only this program writes the key, always
  as \<open>JSON.stringify\<close> of an array of records.
\<close>

record World =
  storage :: "Parcelle list option"
  trace :: "event list"

type_synonym ('s, 'a) prog = "'s \<times> World \<Rightarrow> (error + 'a) \<times> ('s \<times> World)"

definition ret :: "'a \<Rightarrow> ('s, 'a) prog" where
  "ret a s = (Inr a, s)"

definition throw :: "error \<Rightarrow> ('s, 'a) prog" where
  "throw e s = (Inl e, s)"

text \<open>Sequencing: an exception skips the rest.\<close>

definition seq :: "('s, 'a) prog \<Rightarrow> ('a \<Rightarrow> ('s, 'b) prog) \<Rightarrow> ('s, 'b) prog" where
  "seq m f s = (case m s of (Inl e, s') \<Rightarrow> (Inl e, s') | (Inr a, s') \<Rightarrow> f a s')"

definition try_catch :: "('s, 'a) prog \<Rightarrow> (error \<Rightarrow> ('s, 'a) prog) \<Rightarrow> ('s, 'a) prog" where
  "try_catch m h s = (case m s of (Inl e, s') \<Rightarrow> h e s' | (Inr a, s') \<Rightarrow> (Inr a, s'))"

definition try_finally :: "('s, 'a) prog \<Rightarrow> ('s, unit) prog \<Rightarrow> ('s, 'a) prog" where
  "try_finally m fin s =
     (case m s of (r, s') \<Rightarrow>
        (case fin s' of (Inl e, s'') \<Rightarrow> (Inl e, s'') | (Inr u, s'') \<Rightarrow> (r, s'')))"

text \<open>Reading the component's state, a \<open>setState\<close> call, and an entry of the trace.\<close>

definition get_state :: "('s, 's) prog" where
  "get_state s = (Inr (fst s), s)"

definition set_state :: "('s \<Rightarrow> 's) \<Rightarrow> ('s, unit) prog" where
  "set_state f s = (Inr (), (f (fst s), snd s))"

definition emit :: "event \<Rightarrow> ('s, unit) prog" where
  "emit ev s = (Inr (), (fst s, (snd s)\<lparr>trace := trace (snd s) @ [ev]\<rparr>))"

text \<open>An awaited call to a platform service, with the effect it has when it returns.\<close>

definition await :: "error + 'a \<Rightarrow> ('s, 'a) prog" where
  "await r = (case r of Inl e \<Rightarrow> throw e | Inr a \<Rightarrow> ret a)"

definition await_effect :: "error + 'a \<Rightarrow> event \<Rightarrow> ('s, 'a) prog" where
  "await_effect r ev = (case r of Inl e \<Rightarrow> throw e | Inr a \<Rightarrow> seq (emit ev) (\<lambda>u. ret a))"

text \<open>\<open>AsyncStorage.setItem(STORAGE_KEY, JSON.stringify(data))\<close>.\<close>

definition setItem :: "error + unit \<Rightarrow> Parcelle list \<Rightarrow> ('s, unit) prog" where
  "setItem r d s =
     (case r of
        Inl e \<Rightarrow> (Inl e, s)
      | Inr u \<Rightarrow> (Inr (), (fst s, (snd s)\<lparr>storage := Some d\<rparr>)))"

text \<open>\<open>AsyncStorage.removeItem(STORAGE_KEY)\<close>.\<close>

definition removeItem :: "error + unit \<Rightarrow> ('s, unit) prog" where
  "removeItem r s =
     (case r of
        Inl e \<Rightarrow> (Inl e, s)
      | Inr u \<Rightarrow> (Inr (), (fst s, (snd s)\<lparr>storage := None\<rparr>)))"

text \<open>\<open>AsyncStorage.getItem(STORAGE_KEY)\<close> followed by \<open>JSON.parse\<close> when the value is truthy.\<close>

definition getItem :: "error + unit \<Rightarrow> ('s, Parcelle list option) prog" where
  "getItem r s = (case r of Inl e \<Rightarrow> (Inl e, s) | Inr u \<Rightarrow> (Inr (storage (snd s)), s))"

section \<open>The form screen (\<open>AddParcelleForm\<close>)\<close>

text \<open>
  The \<open>useState\<close> cells of the component. Both variants of the form have the same cells;
  in the file-system variant \<open>image\<close> never carries an \<open>assetId\<close>.
\<close>

record FormState =
  numeroDeLot_st :: jsstring
  etatDeParcelle_st :: jsstring
  nombreDeLogement_st :: jsstring
  image_st :: "ImageRef option"
  isLoading_st :: bool
  isSaving_st :: bool
  parcelles_st :: "Parcelle list"
  acheve_st :: jsstring
  enCours_st :: jsstring
  errors_st :: errors

definition initial_form :: FormState where
  "initial_form =
     \<lparr>numeroDeLot_st = [], etatDeParcelle_st = [], nombreDeLogement_st = [], image_st = None,
      isLoading_st = False, isSaving_st = False, parcelles_st = [], acheve_st = [],
      enCours_st = [], errors_st = Map.empty\<rparr>"

text \<open>
  What the platform answers during one handler of the form: the outcome of each awaited
  call, the readings of the clock, the two directories, and the \<open>onSave\<close> prop
  (\<open>None\<close> when the prop is absent).
\<close>

record FormEnv =
  requestMediaPermissions :: "error + bool"
  requestCameraPermissions :: "error + bool"
  launchCamera :: "error + jsstring option"
  copyAsync :: "error + unit"
  saveToLibraryAsync :: "error + unit"
  deleteAsync :: "error + unit"
  form_setItem :: "error + unit"
  form_getItem :: "error + unit"
  onSave :: "(error + unit) option"
  now_name :: int
  now_stamp :: int
  now_id :: int
  now_iso :: jsstring
  cacheDirectory :: jsstring
  documentDirectory :: jsstring

subsection \<open>Validation\<close>

text \<open>
  \<open>validateForm\<close>: \<open>newErrors\<close> starts empty and each of the three \<open>if\<close> statements may
  assign one key. The closure values \<open>numeroDeLot\<close>, \<open>etatDeParcelle\<close>,
  \<open>nombreDeLogement\<close> and \<open>parcelles\<close> are the cells of the state.
\<close>

definition newErrors :: "FormState \<Rightarrow> errors" where
  "newErrors r =
     (let e0 = Map.empty;
          e1 = (if \<not> truthy (trim (numeroDeLot_st r)) then e0(NumeroDeLot \<mapsto> msg_lot_requis)
                else
                  (case find (\<lambda>p. numeroDeLot p = trim (numeroDeLot_st r)) (parcelles_st r) of
                     Some existingParcelle \<Rightarrow> e0(NumeroDeLot \<mapsto> msg_lot_existe)
                   | None \<Rightarrow> e0));
          e2 = (if \<not> truthy (trim (etatDeParcelle_st r)) then e1(EtatDeParcelle \<mapsto> msg_etat_requis)
                else e1);
          e3 = (if \<not> truthy (trim (nombreDeLogement_st r))
                then e2(NombreDeLogement \<mapsto> msg_nombre_requis)
                else if isNaN (Number (nombreDeLogement_st r)) \<or> le_zero (Number (nombreDeLogement_st r))
                then e2(NombreDeLogement \<mapsto> msg_nombre_positif)
                else e2)
      in e3)"

definition validateForm :: "(FormState, bool) prog" where
  "validateForm =
     seq get_state (\<lambda>r.
     seq (set_state (\<lambda>s. s\<lparr>errors_st := newErrors r\<rparr>)) (\<lambda>u.
     ret (length (Object_keys (newErrors r)) = 0)))"

subsection \<open>Messages\<close>

definition msg_permission_galerie :: jsstring where
  "msg_permission_galerie =
     str ''L'' @ [0x27] @ str ''autorisation d'' @ [0x27] @ str ''acc'' @ [0xE8] @ str ''s '' @ [0xE0]
     @ str '' la galerie est requise pour sauvegarder les photos.''"

definition msg_permission_galerie_pick :: jsstring where
  "msg_permission_galerie_pick =
     str ''L'' @ [0x27] @ str ''autorisation d'' @ [0x27] @ str ''acc'' @ [0xE8] @ str ''s '' @ [0xE0]
     @ str '' la galerie est requise pour sauvegarder les photos dans votre galerie.''"

definition msg_permission_camera :: jsstring where
  "msg_permission_camera =
     str ''Veuillez autoriser l'' @ [0x27] @ str ''acc'' @ [0xE8] @ str ''s '' @ [0xE0] @ str '' l''
     @ [0x27] @ str ''appareil photo''"

definition msg_erreur_photo :: jsstring where
  "msg_erreur_photo =
     str ''Une erreur s'' @ [0x27] @ str ''est produite lors de la prise de photo''"

definition msg_erreur_sauvegarde :: jsstring where
  "msg_erreur_sauvegarde =
     str ''Une erreur s'' @ [0x27] @ str ''est produite lors de la sauvegarde des donn'' @ [0xE9]
     @ str ''es''"

definition msg_succes :: jsstring where
  "msg_succes = str ''Succ'' @ [0xE8] @ str ''s''"

definition msg_sauvegardee :: jsstring where
  "msg_sauvegardee =
     str ''Parcelle sauvegard'' @ [0xE9] @ str ''e avec succ'' @ [0xE8] @ str ''s!''"

definition msg_sauvegardee_galerie :: jsstring where
  "msg_sauvegardee_galerie =
     msg_sauvegardee @ str '' La photo est maintenant disponible dans votre galerie.''"

subsection \<open>Loading and storing the collection\<close>

text \<open>\<open>loadParcelles\<close> of the form: a value that is absent leaves the state as it is.\<close>

definition loadParcelles_form :: "FormEnv \<Rightarrow> (FormState, unit) prog" where
  "loadParcelles_form env =
     try_catch
       (seq (getItem (form_getItem env)) (\<lambda>storedParcelles.
        case storedParcelles of
          Some ps \<Rightarrow> set_state (\<lambda>s. s\<lparr>parcelles_st := ps\<rparr>)
        | None \<Rightarrow> ret ()))
       (\<lambda>e. emit (ConsoleError (str ''Erreur lors du chargement des parcelles:'') e))"

definition saveParcellesToStorage :: "FormEnv \<Rightarrow> Parcelle list \<Rightarrow> (FormState, unit) prog" where
  "saveParcellesToStorage env parcellesData =
     try_catch
       (setItem (form_setItem env) parcellesData)
       (\<lambda>e. seq (emit (ConsoleError (str ''Erreur lors de la sauvegarde des parcelles:'') e)) (\<lambda>u.
            throw e))"

subsection \<open>Gallery variant (\<open>src/app/add-parcelle-form.tsx\<close>)\<close>

text \<open>
  \<open>saveImageToMediaLibrary(imageUri, imageName)\<close>. \<open>r\<close> holds the closure values of the
  render the handler was created in. A denied permission returns \<open>null\<close>; an exception
  of the copy, of the gallery registration or of the clean-up is logged and thrown again.
\<close>

definition saveImageToMediaLibrary ::
  "FormEnv \<Rightarrow> FormState \<Rightarrow> jsstring \<Rightarrow> jsstring \<Rightarrow> (FormState, ImageRef option) prog"
where
  "saveImageToMediaLibrary env r imageUri imageName =
     try_catch
       (seq (await (requestMediaPermissions env)) (\<lambda>granted.
        if \<not> granted then
          seq (emit (Alert (str ''Permission requise'') msg_permission_galerie)) (\<lambda>u. ret None)
        else
          let fileName =
                str ''Parcelle_''
                @ (if truthy (trim (numeroDeLot_st r)) then trim (numeroDeLot_st r)
                   else toString (now_name env))
                @ str ''_'' @ toString (now_stamp env) @ str ''.jpg'';
              tempUri = cacheDirectory env @ fileName
          in
          seq (await_effect (copyAsync env) (CopyAsync imageUri tempUri)) (\<lambda>u.
          seq (await_effect (saveToLibraryAsync env) (SaveToLibraryAsync tempUri)) (\<lambda>u.
          seq (await_effect (deleteAsync env) (DeleteAsync tempUri)) (\<lambda>u.
          ret (Some \<lparr>uri = imageUri, name = fileName, assetId = None\<rparr>))))))
       (\<lambda>e. seq (emit (ConsoleError (str ''Erreur lors de la sauvegarde vers la galerie:'') e)) (\<lambda>u.
            throw e))"

text \<open>The object literal \<open>newParcelle\<close> of \<open>handleSave\<close>.\<close>

definition newParcelle :: "FormEnv \<Rightarrow> FormState \<Rightarrow> ImageRef option \<Rightarrow> Parcelle" where
  "newParcelle env r savedImage =
     \<lparr>id_p = toString (now_id env),
      numeroDeLot = trim (numeroDeLot_st r),
      etatDeParcelle = trim (etatDeParcelle_st r),
      nombreDeLogement = trim (nombreDeLogement_st r),
      acheve = or_else (trim (acheve_st r)) [],
      enCours = or_else (trim (enCours_st r)) [],
      image_p = savedImage,
      createdAt = now_iso env\<rparr>"

definition call_onSave :: "FormEnv \<Rightarrow> Parcelle \<Rightarrow> (FormState, unit) prog" where
  "call_onSave env p =
     (case onSave env of
        None \<Rightarrow> ret ()
      | Some outcome \<Rightarrow> await_effect outcome (OnSave p))"

definition reset_form :: "FormState \<Rightarrow> FormState" where
  "reset_form s =
     s\<lparr>numeroDeLot_st := [], etatDeParcelle_st := [], nombreDeLogement_st := [], acheve_st := [],
       enCours_st := [], image_st := None, errors_st := Map.empty\<rparr>"

definition handleSave :: "FormEnv \<Rightarrow> (FormState, unit) prog" where
  "handleSave env =
     seq get_state (\<lambda>r.
     seq validateForm (\<lambda>valid.
     if \<not> valid then ret ()
     else
       try_finally
         (try_catch
            (seq (set_state (\<lambda>s. s\<lparr>isSaving_st := True\<rparr>)) (\<lambda>u.
             seq (case image_st r of
                    None \<Rightarrow> ret None
                  | Some img \<Rightarrow>
                      seq (saveImageToMediaLibrary env r (uri img) (name img)) (\<lambda>mediaAsset.
                      case mediaAsset of
                        Some m \<Rightarrow> ret (Some \<lparr>uri = uri m, name = name m, assetId = assetId m\<rparr>)
                      | None \<Rightarrow> ret (Some img))) (\<lambda>savedImage.
             let updatedParcelles = parcelles_st r @ [newParcelle env r savedImage] in
             seq (set_state (\<lambda>s. s\<lparr>parcelles_st := updatedParcelles\<rparr>)) (\<lambda>u.
             seq (saveParcellesToStorage env updatedParcelles) (\<lambda>u.
             seq (call_onSave env (newParcelle env r savedImage)) (\<lambda>u.
             seq (emit (Alert msg_succes
                          (if savedImage \<noteq> None then msg_sauvegardee_galerie else msg_sauvegardee)))
               (\<lambda>u.
             seq (set_state reset_form) (\<lambda>u.
             emit RouterBack))))))))
            (\<lambda>e.
             seq (emit (ConsoleError (str ''Erreur lors de la sauvegarde de la parcelle:'') e)) (\<lambda>u.
             emit (Alert (str ''Erreur'') msg_erreur_sauvegarde))))
         (set_state (\<lambda>s. s\<lparr>isSaving_st := False\<rparr>))))"

definition pickImage :: "FormEnv \<Rightarrow> (FormState, unit) prog" where
  "pickImage env =
     seq get_state (\<lambda>r.
     try_finally
       (try_catch
          (seq (set_state (\<lambda>s. s\<lparr>isLoading_st := True\<rparr>)) (\<lambda>u.
           seq (await (requestCameraPermissions env)) (\<lambda>cameraGranted.
           if \<not> cameraGranted then emit (Alert (str ''Attention'') msg_permission_camera)
           else
             seq (await (requestMediaPermissions env)) (\<lambda>mediaGranted.
             seq (if \<not> mediaGranted
                  then emit (Alert (str ''Permission requise'') msg_permission_galerie_pick)
                  else ret ()) (\<lambda>u.
             seq (await (launchCamera env)) (\<lambda>result.
             case result of
               None \<Rightarrow> ret ()
             | Some assetUri \<Rightarrow>
                 let fileName =
                       str ''Parcelle_''
                       @ or_else (trim (numeroDeLot_st r)) (str ''temp'')
                       @ str ''_'' @ toString (now_stamp env) @ str ''.jpg''
                 in set_state
                      (\<lambda>s. s\<lparr>image_st := Some \<lparr>uri = assetUri, name = fileName, assetId = None\<rparr>\<rparr>)))))))
          (\<lambda>e.
           seq (emit (ConsoleLogError e)) (\<lambda>u.
           emit (Alert (str ''Erreur'') msg_erreur_photo))))
       (set_state (\<lambda>s. s\<lparr>isLoading_st := False\<rparr>)))"

subsection \<open>File-system variant (the first file of \<open>src/unnamed/part_000\<close>)\<close>

definition IMAGES_DIRECTORY :: "FormEnv \<Rightarrow> jsstring" where
  "IMAGES_DIRECTORY env = documentDirectory env @ str ''parcelle_images/''"

definition saveImageToFileSystem ::
  "FormEnv \<Rightarrow> jsstring \<Rightarrow> jsstring \<Rightarrow> (FormState, jsstring) prog"
where
  "saveImageToFileSystem env imageUri imageName =
     try_catch
       (let fileName = toString (now_stamp env) @ str ''_'' @ imageName;
            newPath = IMAGES_DIRECTORY env @ fileName
        in seq (await_effect (copyAsync env) (CopyAsync imageUri newPath)) (\<lambda>u. ret newPath))
       (\<lambda>e. seq (emit (ConsoleError (str ''Erreur lors de la sauvegarde de l'' @ [0x27] @ str ''image:'') e))
              (\<lambda>u. throw e))"

definition handleSave_fs :: "FormEnv \<Rightarrow> (FormState, unit) prog" where
  "handleSave_fs env =
     seq get_state (\<lambda>r.
     seq validateForm (\<lambda>valid.
     if \<not> valid then ret ()
     else
       try_finally
         (try_catch
            (seq (set_state (\<lambda>s. s\<lparr>isSaving_st := True\<rparr>)) (\<lambda>u.
             seq (case image_st r of
                    None \<Rightarrow> ret None
                  | Some img \<Rightarrow>
                      seq (saveImageToFileSystem env (uri img) (name img)) (\<lambda>path.
                      ret (Some path))) (\<lambda>savedImagePath.
             let savedImage =
                   (case savedImagePath of
                      None \<Rightarrow> None
                    | Some path \<Rightarrow>
                        if truthy path
                        then Some \<lparr>uri = path,
                                   name = or_else (case image_st r of None \<Rightarrow> [] | Some i \<Rightarrow> name i) [],
                                   assetId = None\<rparr>
                        else None);
                 updatedParcelles = parcelles_st r @ [newParcelle env r savedImage]
             in
             seq (set_state (\<lambda>s. s\<lparr>parcelles_st := updatedParcelles\<rparr>)) (\<lambda>u.
             seq (saveParcellesToStorage env updatedParcelles) (\<lambda>u.
             seq (call_onSave env (newParcelle env r savedImage)) (\<lambda>u.
             seq (set_state reset_form) (\<lambda>u.
             emit RouterBack)))))))
            (\<lambda>e.
             seq (emit (ConsoleError (str ''Erreur lors de la sauvegarde de la parcelle:'') e)) (\<lambda>u.
             emit (Alert (str ''Erreur'') msg_erreur_sauvegarde))))
         (set_state (\<lambda>s. s\<lparr>isSaving_st := False\<rparr>))))"

definition pickImage_fs :: "FormEnv \<Rightarrow> (FormState, unit) prog" where
  "pickImage_fs env =
     seq get_state (\<lambda>r.
     try_finally
       (try_catch
          (seq (set_state (\<lambda>s. s\<lparr>isLoading_st := True\<rparr>)) (\<lambda>u.
           seq (await (requestCameraPermissions env)) (\<lambda>granted.
           if \<not> granted then emit (Alert (str ''Attention'') msg_permission_camera)
           else
             seq (await (launchCamera env)) (\<lambda>result.
             case result of
               None \<Rightarrow> ret ()
             | Some assetUri \<Rightarrow>
                 set_state
                   (\<lambda>s. s\<lparr>image_st :=
                            Some \<lparr>uri = assetUri,
                                  name = str ''parcelle_''
                                         @ or_else (numeroDeLot_st r) (toString (now_stamp env))
                                         @ str ''.jpg'',
                                  assetId = None\<rparr>\<rparr>)))))
          (\<lambda>e.
           seq (emit (ConsoleLogError e)) (\<lambda>u.
           emit (Alert (str ''Erreur'') msg_erreur_photo))))
       (set_state (\<lambda>s. s\<lparr>isLoading_st := False\<rparr>)))"

subsection \<open>The text inputs and the image preview\<close>

text \<open>
  \<open>onChangeText\<close> of a field stores the text and, when the field has an error, sets the
  key of the error to \<open>undefined\<close>: the key reads as absent everywhere it is read.
  The preview's button calls \<open>setImage(null)\<close>.
\<close>

definition set_field :: "field \<Rightarrow> jsstring \<Rightarrow> FormState \<Rightarrow> FormState" where
  "set_field k v s =
     (case k of
        NumeroDeLot \<Rightarrow> s\<lparr>numeroDeLot_st := v\<rparr>
      | EtatDeParcelle \<Rightarrow> s\<lparr>etatDeParcelle_st := v\<rparr>
      | NombreDeLogement \<Rightarrow> s\<lparr>nombreDeLogement_st := v\<rparr>
      | Acheve \<Rightarrow> s\<lparr>acheve_st := v\<rparr>
      | EnCours \<Rightarrow> s\<lparr>enCours_st := v\<rparr>)"

definition onChangeText :: "field \<Rightarrow> jsstring \<Rightarrow> (FormState, unit) prog" where
  "onChangeText k v =
     set_state (\<lambda>s. (set_field k v s)\<lparr>errors_st := (errors_st s)(k := None)\<rparr>)"

definition removeImage :: "(FormState, unit) prog" where
  "removeImage = set_state (\<lambda>s. s\<lparr>image_st := None\<rparr>)"

section \<open>The list screen (\<open>Index\<close>, the second file of \<open>src/unnamed/part_000\<close>)\<close>

record IndexState =
  parcelles_ix :: "Parcelle list"
  isLoading_ix :: bool
  isDeleting_ix :: "jsstring option"
  refreshing_ix :: bool
  isExporting_ix :: bool

definition initial_index :: IndexState where
  "initial_index =
     \<lparr>parcelles_ix = [], isLoading_ix = True, isDeleting_ix = None, refreshing_ix = False,
      isExporting_ix = False\<rparr>"

text \<open>
  What the platform answers during one handler of the list screen. \<open>getTime s\<close> is
  \<open>new Date(s).getTime()\<close>, with \<open>None\<close> for \<open>NaN\<close> (an invalid date);
  \<open>toLocaleDateString s\<close> is \<open>new Date(s).toLocaleDateString('fr-FR', ...)\<close> with the
  options of \<open>formatDate\<close>; \<open>confirmed\<close> tells whether the user presses the destructive
  button of a confirmation dialog; \<open>XLSX_write\<close> is the serialisation of the library.
\<close>

record IndexEnv =
  ix_getItem :: "error + unit"
  ix_getItem_again :: "error + unit"
  ix_setItem :: "error + unit"
  ix_removeItem :: "error + unit"
  ix_requestPermissions :: "error + bool"
  deleteAssetsAsync :: "error + unit"
  confirmed :: bool
  getTime :: "jsstring \<Rightarrow> int option"
  toLocaleDateString :: "jsstring \<Rightarrow> jsstring"
  XLSX_write :: "workbook \<Rightarrow> error + jsstring"
  export_iso :: jsstring
  ix_documentDirectory :: jsstring
  writeAsStringAsync :: "error + unit"
  isAvailableAsync :: "error + bool"
  shareAsync :: "error + unit"

subsection \<open>Messages\<close>

definition msg_erreur_chargement :: jsstring where
  "msg_erreur_chargement =
     str ''Une erreur s'' @ [0x27] @ str ''est produite lors du chargement des donn'' @ [0xE9]
     @ str ''es''"

definition msg_confirmer_une :: jsstring where
  "msg_confirmer_une =
     [0xCA] @ str ''tes-vous s'' @ [0xFB] @ str ''r de vouloir supprimer cette parcelle? ''
     @ str ''Cette action ne peut pas '' @ [0xEA] @ str ''tre annul'' @ [0xE9] @ str ''e.''"

definition msg_confirmer_toutes :: jsstring where
  "msg_confirmer_toutes =
     [0xCA] @ str ''tes-vous s'' @ [0xFB] @ str ''r de vouloir supprimer toutes les parcelles? ''
     @ str ''Cette action ne peut pas '' @ [0xEA] @ str ''tre annul'' @ [0xE9] @ str ''e.''"

definition msg_supprimee :: jsstring where
  "msg_supprimee = str ''Parcelle supprim'' @ [0xE9] @ str ''e avec succ'' @ [0xE8] @ str ''s''"

definition msg_toutes_supprimees :: jsstring where
  "msg_toutes_supprimees =
     str ''Toutes les parcelles ont '' @ [0xE9] @ str ''t'' @ [0xE9] @ str '' supprim'' @ [0xE9]
     @ str ''es''"

definition msg_erreur_suppression :: jsstring where
  "msg_erreur_suppression =
     str ''Une erreur s'' @ [0x27] @ str ''est produite lors de la suppression''"

definition msg_aucune_donnee :: jsstring where
  "msg_aucune_donnee = str ''Aucune donn'' @ [0xE9] @ str ''e '' @ [0xE0] @ str '' exporter''"

definition msg_fichier_cree :: jsstring where
  "msg_fichier_cree =
     str ''Fichier Excel cr'' @ [0xE9, 0xE9] @ str '' et sauvegard'' @ [0xE9]"

definition msg_erreur_excel :: jsstring where
  "msg_erreur_excel =
     str ''Une erreur s'' @ [0x27] @ str ''est produite lors de la cr'' @ [0xE9]
     @ str ''ation du fichier Excel''"

subsection \<open>Loading\<close>

text \<open>
  The comparator of \<open>loadParcelles\<close>:
  \<open>new Date(b.createdAt).getTime() - new Date(a.createdAt).getTime()\<close>; the difference is
  \<open>NaN\<close> when one of the two dates is invalid.
\<close>

definition compare_createdAt :: "IndexEnv \<Rightarrow> Parcelle \<Rightarrow> Parcelle \<Rightarrow> int option" where
  "compare_createdAt env a b =
     (case (getTime env (createdAt b), getTime env (createdAt a)) of
        (Some tb, Some ta) \<Rightarrow> Some (tb - ta)
      | _ \<Rightarrow> None)"

text \<open>
  \<open>Array.prototype.sort\<close> with a comparator: \<open>x\<close> goes after \<open>y\<close> when the comparator is
  positive on \<open>(x, y)\<close>, and a \<open>NaN\<close> counts as \<open>0\<close>. The sort is stable. With a consistent
  comparator every stable sort returns the same array, and the insertion sort below is
  one; with an inconsistent comparator (some date is invalid) ECMAScript leaves the order
  to the engine.
\<close>

definition goes_after :: "('a \<Rightarrow> 'a \<Rightarrow> int option) \<Rightarrow> 'a \<Rightarrow> 'a \<Rightarrow> bool" where
  "goes_after cmp x y = (case cmp x y of Some v \<Rightarrow> 0 < v | None \<Rightarrow> False)"

fun insert_sorted :: "('a \<Rightarrow> 'a \<Rightarrow> int option) \<Rightarrow> 'a \<Rightarrow> 'a list \<Rightarrow> 'a list" where
  "insert_sorted cmp x [] = [x]"
| "insert_sorted cmp x (y # ys) =
     (if goes_after cmp x y then y # insert_sorted cmp x ys else x # y # ys)"

definition Array_sort :: "('a \<Rightarrow> 'a \<Rightarrow> int option) \<Rightarrow> 'a list \<Rightarrow> 'a list" where
  "Array_sort cmp xs = foldr (insert_sorted cmp) xs []"

definition loadParcelles :: "IndexEnv \<Rightarrow> (IndexState, unit) prog" where
  "loadParcelles env =
     try_finally
       (try_catch
          (seq (set_state (\<lambda>s. s\<lparr>isLoading_ix := True\<rparr>)) (\<lambda>u.
           seq (getItem (ix_getItem env)) (\<lambda>storedParcelles.
           case storedParcelles of
             Some parsedParcelles \<Rightarrow>
               set_state
                 (\<lambda>s. s\<lparr>parcelles_ix := Array_sort (compare_createdAt env) parsedParcelles\<rparr>)
           | None \<Rightarrow> set_state (\<lambda>s. s\<lparr>parcelles_ix := []\<rparr>))))
          (\<lambda>e.
           seq (emit (ConsoleError (str ''Error loading parcelles:'') e)) (\<lambda>u.
           emit (Alert (str ''Erreur'') msg_erreur_chargement))))
       (set_state (\<lambda>s. s\<lparr>isLoading_ix := False\<rparr>))"

definition onRefresh :: "IndexEnv \<Rightarrow> (IndexState, unit) prog" where
  "onRefresh env =
     seq (set_state (\<lambda>s. s\<lparr>refreshing_ix := True\<rparr>)) (\<lambda>u.
     seq (loadParcelles env) (\<lambda>u.
     set_state (\<lambda>s. s\<lparr>refreshing_ix := False\<rparr>)))"

subsection \<open>Deleting\<close>

text \<open>\<open>!assetId\<close> holds for \<open>undefined\<close> and for the empty string.\<close>

definition truthy_opt :: "jsstring option \<Rightarrow> bool" where
  "truthy_opt a = (case a of None \<Rightarrow> False | Some s \<Rightarrow> truthy s)"

definition deleteImageFromMediaLibrary :: "IndexEnv \<Rightarrow> jsstring option \<Rightarrow> (IndexState, unit) prog" where
  "deleteImageFromMediaLibrary env a =
     (case a of
        None \<Rightarrow> ret ()
      | Some asset \<Rightarrow>
          if \<not> truthy asset then ret ()
          else
            try_catch
              (seq (await (ix_requestPermissions env)) (\<lambda>granted.
               if \<not> granted then emit (ConsoleWarn (str ''Media library permission not granted''))
               else
                 seq (await_effect (deleteAssetsAsync env) (DeleteAssetsAsync [asset])) (\<lambda>u.
                 emit (ConsoleLog (str ''Image deleted from media library'')))))
              (\<lambda>e. emit (ConsoleError (str ''Error deleting image from media library:'') e)))"

text \<open>
  \<open>deleteParcelle(parcelleId, image)\<close>: the confirmation dialog, and the \<open>onPress\<close> of its
  destructive button. The \<open>loadParcelles()\<close> of the \<open>catch\<close> block is not awaited; it
  writes other cells than the \<open>finally\<close> block, so running it before that block gives
  the same final state.
\<close>

definition image_assetId :: "ImageRef option \<Rightarrow> jsstring option" where
  "image_assetId i = (case i of None \<Rightarrow> None | Some r \<Rightarrow> assetId r)"

definition deleteParcelle :: "IndexEnv \<Rightarrow> jsstring \<Rightarrow> ImageRef option \<Rightarrow> (IndexState, unit) prog" where
  "deleteParcelle env parcelleId img =
     seq get_state (\<lambda>r.
     seq (emit (Alert (str ''Confirmer la suppression'') msg_confirmer_une)) (\<lambda>u.
     if \<not> confirmed env then ret ()
     else
       try_finally
         (try_catch
            (seq (set_state (\<lambda>s. s\<lparr>isDeleting_ix := Some parcelleId\<rparr>)) (\<lambda>u.
             let updatedParcelles = filter (\<lambda>parcelle. id_p parcelle \<noteq> parcelleId) (parcelles_ix r)
             in
             seq (set_state (\<lambda>s. s\<lparr>parcelles_ix := updatedParcelles\<rparr>)) (\<lambda>u.
             seq (setItem (ix_setItem env) updatedParcelles) (\<lambda>u.
             seq (if truthy_opt (image_assetId img)
                  then deleteImageFromMediaLibrary env (image_assetId img)
                  else ret ()) (\<lambda>u.
             emit (Alert msg_succes msg_supprimee))))))
            (\<lambda>e.
             seq (emit (ConsoleError (str ''Error deleting parcelle:'') e)) (\<lambda>u.
             seq (emit (Alert (str ''Erreur'') msg_erreur_suppression)) (\<lambda>u.
             loadParcelles (env\<lparr>ix_getItem := ix_getItem_again env\<rparr>)))))
         (set_state (\<lambda>s. s\<lparr>isDeleting_ix := None\<rparr>))))"

definition deleteAllMediaLibraryImages :: "IndexEnv \<Rightarrow> IndexState \<Rightarrow> (IndexState, unit) prog" where
  "deleteAllMediaLibraryImages env r =
     try_catch
       (seq (await (ix_requestPermissions env)) (\<lambda>granted.
        if \<not> granted then emit (ConsoleWarn (str ''Media library permission not granted''))
        else
          let assetIds =
                [a. parcelle \<leftarrow> parcelles_ix r, Some a \<leftarrow> [image_assetId (image_p parcelle)],
                    truthy a]
          in
          if length assetIds > 0 then
            seq (await_effect (deleteAssetsAsync env) (DeleteAssetsAsync assetIds)) (\<lambda>u.
            emit (ConsoleLog (str ''Deleted '' @ toString (int (length assetIds))
                              @ str '' images from media library'')))
          else ret ()))
       (\<lambda>e. emit (ConsoleError (str ''Error deleting images from media library:'') e))"

definition deleteAllParcelles :: "IndexEnv \<Rightarrow> (IndexState, unit) prog" where
  "deleteAllParcelles env =
     seq get_state (\<lambda>r.
     seq (emit (Alert (str ''Confirmer la suppression'') msg_confirmer_toutes)) (\<lambda>u.
     if \<not> confirmed env then ret ()
     else
       try_finally
         (try_catch
            (seq (set_state (\<lambda>s. s\<lparr>isLoading_ix := True\<rparr>)) (\<lambda>u.
             seq (deleteAllMediaLibraryImages env r) (\<lambda>u.
             seq (removeItem (ix_removeItem env)) (\<lambda>u.
             seq (set_state (\<lambda>s. s\<lparr>parcelles_ix := []\<rparr>)) (\<lambda>u.
             emit (Alert msg_succes msg_toutes_supprimees))))))
            (\<lambda>e.
             seq (emit (ConsoleError (str ''Error deleting all parcelles:'') e)) (\<lambda>u.
             emit (Alert (str ''Erreur'') msg_erreur_suppression))))
         (set_state (\<lambda>s. s\<lparr>isLoading_ix := False\<rparr>))))"

subsection \<open>Exporting\<close>

definition formatDate :: "IndexEnv \<Rightarrow> jsstring \<Rightarrow> jsstring" where
  "formatDate env dateString = toLocaleDateString env dateString"

text \<open>The eleven keys of a row object, in the order the object literal writes them.\<close>

definition key_sequentiel :: jsstring where
  "key_sequentiel = str ''N'' @ [0xB0] @ str '' S'' @ [0xE9] @ str ''quentiel''"

definition key_lot :: jsstring where
  "key_lot = str ''N'' @ [0xB0] @ str '' de Lot''"

definition key_etat :: jsstring where
  "key_etat = [0xC9] @ str ''tat de Parcelle''"

definition key_logements :: jsstring where
  "key_logements = str ''Nombre de Logements''"

definition key_acheves :: jsstring where
  "key_acheves = [0xC9] @ str ''tages Achev'' @ [0xE9] @ str ''s''"

definition key_en_cours :: jsstring where
  "key_en_cours = [0xC9] @ str ''tages en Cours''"

definition key_nom_image :: jsstring where
  "key_nom_image = str ''Nom de l'' @ [0x27] @ str ''Image''"

definition key_contient_image :: jsstring where
  "key_contient_image = str ''Contient une Image''"

definition key_galerie :: jsstring where
  "key_galerie = str ''Photo dans Galerie''"

definition key_date :: jsstring where
  "key_date = str ''Date d'' @ [0x27] @ str ''Ajout''"

definition key_id :: jsstring where
  "key_id = str ''ID Parcelle''"

text \<open>An object whose keys are not array indices keeps them in insertion order.\<close>

type_synonym jsobject = "(jsstring \<times> cell) list"

definition row_object :: "IndexEnv \<Rightarrow> Parcelle \<Rightarrow> nat \<Rightarrow> jsobject" where
  "row_object env parcelle index =
     [(key_sequentiel, NumCell (index + 1)),
      (key_lot, StrCell (numeroDeLot parcelle)),
      (key_etat, StrCell (etatDeParcelle parcelle)),
      (key_logements, StrCell (nombreDeLogement parcelle)),
      (key_acheves, StrCell (or_else (acheve parcelle) [])),
      (key_en_cours, StrCell (or_else (enCours parcelle) [])),
      (key_nom_image,
         StrCell (or_else (case image_p parcelle of None \<Rightarrow> [] | Some i \<Rightarrow> name i)
                          (str ''Aucune image''))),
      (key_contient_image, StrCell (if image_p parcelle \<noteq> None then str ''Oui'' else str ''Non'')),
      (key_galerie,
         StrCell (if truthy_opt (image_assetId (image_p parcelle)) then str ''Oui'' else str ''Non'')),
      (key_date, StrCell (formatDate env (createdAt parcelle))),
      (key_id, StrCell (id_p parcelle))]"

text \<open>\<open>parcelles.map((parcelle, index) => ...)\<close>.\<close>

definition excelData :: "IndexEnv \<Rightarrow> Parcelle list \<Rightarrow> jsobject list" where
  "excelData env ps = map (\<lambda>(index, parcelle). row_object env parcelle index) (enumerate 0 ps)"

text \<open>
  \<open>XLSX.utils.json_to_sheet\<close> of the SheetJS library, with its default options: the
  header row holds the keys of the objects in the order of their first appearance, and
  each object gives one row, with the value of a key in the column of the key and no
  cell where the object has no such key.
\<close>

definition add_keys :: "jsobject \<Rightarrow> jsstring list \<Rightarrow> jsstring list" where
  "add_keys obj hdr = fold (\<lambda>kv h. if fst kv \<in> set h then h else h @ [fst kv]) obj hdr"

definition sheet_header :: "jsobject list \<Rightarrow> jsstring list" where
  "sheet_header objs = fold add_keys objs []"

definition json_to_sheet :: "jsobject list \<Rightarrow> worksheet" where
  "json_to_sheet objs =
     (let hdr = sheet_header objs
      in \<lparr>rows = map (\<lambda>k. Some (StrCell k)) hdr # map (\<lambda>obj. map (map_of obj) hdr) objs,
          cols = []\<rparr>)"

definition book_new :: workbook where
  "book_new = \<lparr>sheets = []\<rparr>"

definition book_append_sheet :: "workbook \<Rightarrow> worksheet \<Rightarrow> jsstring \<Rightarrow> workbook" where
  "book_append_sheet wb ws nm = wb\<lparr>sheets := sheets wb @ [(nm, ws)]\<rparr>"

definition colWidths :: "nat list" where
  "colWidths = [15, 12, 18, 18, 15, 15, 20, 18, 18, 25, 20]"

text \<open>The workbook \<open>wb\<close> that \<open>exportToExcel\<close> hands to \<open>XLSX.write\<close>.\<close>

definition export_workbook :: "IndexEnv \<Rightarrow> Parcelle list \<Rightarrow> workbook" where
  "export_workbook env ps =
     (let wb = book_new;
          ws = json_to_sheet (excelData env ps);
          ws' = ws\<lparr>cols := colWidths\<rparr>
      in book_append_sheet wb ws' (str ''Liste des Parcelles''))"

text \<open>\<open>s.split('T')[0]\<close>: the part of \<open>s\<close> before its first \<open>T\<close>.\<close>

definition split_T_0 :: "jsstring \<Rightarrow> jsstring" where
  "split_T_0 s = takeWhile (\<lambda>c. c \<noteq> 0x54) s"

definition exportToExcel :: "IndexEnv \<Rightarrow> (IndexState, unit) prog" where
  "exportToExcel env =
     seq get_state (\<lambda>r.
     if length (parcelles_ix r) = 0 then emit (Alert (str ''Attention'') msg_aucune_donnee)
     else
       try_finally
         (try_catch
            (seq (set_state (\<lambda>s. s\<lparr>isExporting_ix := True\<rparr>)) (\<lambda>u.
             let wb = export_workbook env (parcelles_ix r) in
             seq (await_effect (XLSX_write env wb) (XlsxWrite wb)) (\<lambda>wbout.
             let currentDate = split_T_0 (export_iso env);
                 fileName = str ''parcelles_list_'' @ currentDate @ str ''.xlsx'';
                 fileUri = ix_documentDirectory env @ fileName
             in
             seq (await_effect (writeAsStringAsync env) (WriteAsStringAsync fileUri wbout)) (\<lambda>u.
             seq (await (isAvailableAsync env)) (\<lambda>isAvailable.
             if isAvailable then
               seq (await_effect (shareAsync env) (ShareAsync fileUri)) (\<lambda>u.
               emit (Alert msg_succes
                       (msg_fichier_cree @ str '' avec succ'' @ [0xE8] @ str ''s'' @ [0x0A]
                        @ str ''Nom du fichier: '' @ fileName)))
             else
               emit (Alert msg_succes
                       (msg_fichier_cree @ str '' dans:'' @ [0x0A] @ fileUri)))))))
            (\<lambda>e.
             seq (emit (ConsoleError (str ''Error exporting to Excel:'') e)) (\<lambda>u.
             emit (Alert (str ''Erreur'') msg_erreur_excel))))
         (set_state (\<lambda>s. s\<lparr>isExporting_ix := False\<rparr>)))"

section \<open>The application: both screens over one store\<close>

text \<open>
  The form is mounted anew each time it is opened: its cells start at their initial
  values and \<open>loadParcelles\<close> runs. The list screen stays mounted. One handler runs at a
  time, from its first statement to its last (the controls are disabled while one is
  pending). \<open>reachable\<close> holds of the states the application can be in, started on a
  device where nothing is stored.
\<close>

record App =
  form :: FormState
  index :: IndexState
  world :: World

definition initial_app :: App where
  "initial_app =
     \<lparr>form = initial_form, index = initial_index, world = \<lparr>storage = None, trace = []\<rparr>\<rparr>"

definition run_form :: "(FormState, 'a) prog \<Rightarrow> App \<Rightarrow> App" where
  "run_form m a = (case m (form a, world a) of (r, (f, w)) \<Rightarrow> a\<lparr>form := f, world := w\<rparr>)"

definition run_index :: "(IndexState, 'a) prog \<Rightarrow> App \<Rightarrow> App" where
  "run_index m a = (case m (index a, world a) of (r, (x, w)) \<Rightarrow> a\<lparr>index := x, world := w\<rparr>)"

inductive reachable :: "App \<Rightarrow> bool" where
  start: "reachable initial_app"
| mount_form: "reachable a \<Longrightarrow> reachable (run_form (loadParcelles_form env) (a\<lparr>form := initial_form\<rparr>))"
| change_text: "reachable a \<Longrightarrow> reachable (run_form (onChangeText k v) a)"
| pick_image: "reachable a \<Longrightarrow> reachable (run_form (pickImage env) a)"
| pick_image_fs: "reachable a \<Longrightarrow> reachable (run_form (pickImage_fs env) a)"
| remove_image: "reachable a \<Longrightarrow> reachable (run_form removeImage a)"
| save: "reachable a \<Longrightarrow> reachable (run_form (handleSave env) a)"
| save_fs: "reachable a \<Longrightarrow> reachable (run_form (handleSave_fs env) a)"
| focus: "reachable a \<Longrightarrow> reachable (run_index (loadParcelles ienv) a)"
| refresh: "reachable a \<Longrightarrow> reachable (run_index (onRefresh ienv) a)"
| delete: "reachable a \<Longrightarrow> reachable (run_index (deleteParcelle ienv parcelleId img) a)"
| delete_all: "reachable a \<Longrightarrow> reachable (run_index (deleteAllParcelles ienv) a)"
| export: "reachable a \<Longrightarrow> reachable (run_index (exportToExcel ienv) a)"

section \<open>The validator in the words of the specification\<close>

text \<open>
  The three rules of the validator, each as a check of its own that reports at most
  the error of its field: the lot number is not empty after trimming and differs, after
  trimming, from the lot number of every existing record; the state is not empty after
  trimming; the unit count is not empty after trimming, parses as a number and is
  positive, with one message for the empty field and another for the rest.
\<close>

definition rule_numeroDeLot :: "jsstring \<Rightarrow> Parcelle list \<Rightarrow> errors" where
  "rule_numeroDeLot lot existing =
     (if trim lot = [] then [NumeroDeLot \<mapsto> msg_lot_requis]
      else if trim lot \<in> set (map numeroDeLot existing) then [NumeroDeLot \<mapsto> msg_lot_existe]
      else Map.empty)"

definition rule_etatDeParcelle :: "jsstring \<Rightarrow> errors" where
  "rule_etatDeParcelle etat =
     (if trim etat = [] then [EtatDeParcelle \<mapsto> msg_etat_requis] else Map.empty)"

definition is_positive_number :: "jsstring \<Rightarrow> bool" where
  "is_positive_number s \<longleftrightarrow> \<not> isNaN (Number s) \<and> \<not> le_zero (Number s)"

definition rule_nombreDeLogement :: "jsstring \<Rightarrow> errors" where
  "rule_nombreDeLogement nombre =
     (if trim nombre = [] then [NombreDeLogement \<mapsto> msg_nombre_requis]
      else if \<not> is_positive_number (trim nombre) then [NombreDeLogement \<mapsto> msg_nombre_positif]
      else Map.empty)"

section \<open>Reasoning about handlers\<close>

text \<open>
  \<open>wp m Q s\<close>: the result and the final state of \<open>m\<close> started in \<open>s\<close> satisfy \<open>Q\<close>. Every
  handler is a total function, so \<open>wp\<close> is a statement about the one run there is.
\<close>

definition wp :: "('s, 'a) prog \<Rightarrow> (error + 'a \<Rightarrow> 's \<times> World \<Rightarrow> bool) \<Rightarrow> 's \<times> World \<Rightarrow> bool" where
  "wp m Q s = (case m s of (r, s') \<Rightarrow> Q r s')"

section \<open>Invariants of the collection\<close>

text \<open>
  A record is normalized when each of its five text fields equals its own trimmed form.
  A collection is well formed when its lot numbers are pairwise distinct, its records
  are normalized and no image of it carries an \<open>assetId\<close>.
\<close>

definition normalized :: "Parcelle \<Rightarrow> bool" where
  "normalized p \<longleftrightarrow>
     trim (numeroDeLot p) = numeroDeLot p \<and> trim (etatDeParcelle p) = etatDeParcelle p \<and>
     trim (nombreDeLogement p) = nombreDeLogement p \<and> trim (acheve p) = acheve p \<and>
     trim (enCours p) = enCours p"

definition no_assetId :: "Parcelle \<Rightarrow> bool" where
  "no_assetId p \<longleftrightarrow> image_assetId (image_p p) = None"

definition wf_collection :: "Parcelle list \<Rightarrow> bool" where
  "wf_collection ps \<longleftrightarrow>
     distinct (map numeroDeLot ps) \<and> list_all normalized ps \<and> list_all no_assetId ps"

definition store_inv :: "World \<Rightarrow> bool" where
  "store_inv w = (case storage w of None \<Rightarrow> True | Some ps \<Rightarrow> wf_collection ps)"

definition form_inv :: "FormState \<times> World \<Rightarrow> bool" where
  "form_inv s \<longleftrightarrow>
     wf_collection (parcelles_st (fst s)) \<and> image_assetId (image_st (fst s)) = None \<and>
     store_inv (snd s)"

definition index_inv :: "IndexState \<times> World \<Rightarrow> bool" where
  "index_inv s \<longleftrightarrow> wf_collection (parcelles_ix (fst s)) \<and> store_inv (snd s)"

definition app_inv :: "App \<Rightarrow> bool" where
  "app_inv a \<longleftrightarrow> form_inv (form a, world a) \<and> index_inv (index a, world a)"

section \<open>Display order\<close>

text \<open>
  A list is newest first when, of any two of its records, the earlier in the list has a
  creation time that is not before the creation time of the later; both dates must be
  valid for that.
\<close>

definition newest_first :: "IndexEnv \<Rightarrow> Parcelle list \<Rightarrow> bool" where
  "newest_first env ps =
     sorted_wrt
       (\<lambda>a b. case (getTime env (createdAt a), getTime env (createdAt b)) of
                 (Some ta, Some tb) \<Rightarrow> tb \<le> ta
               | _ \<Rightarrow> False)
       ps"

definition valid_dates :: "IndexEnv \<Rightarrow> Parcelle list \<Rightarrow> bool" where
  "valid_dates env ps = list_all (\<lambda>p. getTime env (createdAt p) \<noteq> None) ps"

section \<open>The exported sheet in the words of the specification\<close>

text \<open>
  The eleven columns in their fixed order, and the row of a record: sequential index,
  lot number, state, unit count, floors completed, floors in progress, image name,
  has-image flag, has-gallery flag, formatted creation date, raw id.
\<close>

definition export_header :: "jsstring list" where
  "export_header =
     [key_sequentiel, key_lot, key_etat, key_logements, key_acheves, key_en_cours,
      key_nom_image, key_contient_image, key_galerie, key_date, key_id]"

definition data_row :: "IndexEnv \<Rightarrow> Parcelle \<Rightarrow> nat \<Rightarrow> cell option list" where
  "data_row env p i =
     [Some (NumCell (i + 1)),
      Some (StrCell (numeroDeLot p)),
      Some (StrCell (etatDeParcelle p)),
      Some (StrCell (nombreDeLogement p)),
      Some (StrCell (acheve p)),
      Some (StrCell (enCours p)),
      Some (StrCell (case image_p p of
                       None \<Rightarrow> str ''Aucune image''
                     | Some im \<Rightarrow> if name im = [] then str ''Aucune image'' else name im)),
      Some (StrCell (if image_p p = None then str ''Non'' else str ''Oui'')),
      Some (StrCell (case image_assetId (image_p p) of
                       None \<Rightarrow> str ''Non''
                     | Some a \<Rightarrow> if a = [] then str ''Non'' else str ''Oui'')),
      Some (StrCell (toLocaleDateString env (createdAt p))),
      Some (StrCell (id_p p))]"

definition export_rows :: "IndexEnv \<Rightarrow> Parcelle list \<Rightarrow> cell option list list" where
  "export_rows env ps =
     map (\<lambda>k. Some (StrCell k)) export_header
     # map (\<lambda>(i, p). data_row env p i) (enumerate 0 ps)"

section \<open>Example inputs\<close>

text \<open>A form in which every validated field is wrong and the two free fields are filled.\<close>

definition all_wrong_form :: FormState where
  "all_wrong_form =
     initial_form\<lparr>numeroDeLot_st := str ''  '', etatDeParcelle_st := [],
       nombreDeLogement_st := str ''abc'', acheve_st := str '' R+2 '', enCours_st := str ''?''\<rparr>"

text \<open>A form whose three validated fields are right, on an empty collection.\<close>

definition example_form :: FormState where
  "example_form =
     initial_form\<lparr>numeroDeLot_st := str '' A1 '', etatDeParcelle_st := str ''Bon'',
       nombreDeLogement_st := str ''10''\<rparr>"

text \<open>
  A platform on which every call of the form succeeds, and the application after the
  user has opened the form on a fresh device, typed the lot number \<open>A1\<close> (between
  spaces), the state \<open>Bon\<close> and the unit count \<open>10\<close>, and pressed the save button.
\<close>

definition example_env :: FormEnv where
  "example_env =
     \<lparr>requestMediaPermissions = Inr True, requestCameraPermissions = Inr True,
      launchCamera = Inr (Some (str ''file:///cache/photo.jpg'')), copyAsync = Inr (),
      saveToLibraryAsync = Inr (), deleteAsync = Inr (), form_setItem = Inr (),
      form_getItem = Inr (), onSave = None, now_name = 1, now_stamp = 2, now_id = 3,
      now_iso = str ''2024-05-01T10:00:00.000Z'', cacheDirectory = str ''file:///cache/'',
      documentDirectory = str ''file:///docs/''\<rparr>"

definition typed_A1 :: "App \<Rightarrow> App" where
  "typed_A1 a =
     run_form (onChangeText NombreDeLogement (str ''10''))
       (run_form (onChangeText EtatDeParcelle (str ''Bon''))
          (run_form (onChangeText NumeroDeLot (str '' A1 ''))
             (run_form (loadParcelles_form example_env) (a\<lparr>form := initial_form\<rparr>))))"

definition saved_A1 :: App where
  "saved_A1 = run_form (handleSave example_env) (typed_A1 initial_app)"

definition parcelle_A1 :: Parcelle where
  "parcelle_A1 =
     \<lparr>id_p = str ''3'', numeroDeLot = str ''A1'', etatDeParcelle = str ''Bon'',
      nombreDeLogement = str ''10'', acheve = [], enCours = [], image_p = None,
      createdAt = str ''2024-05-01T10:00:00.000Z''\<rparr>"

definition saved_A1_twice :: App where
  "saved_A1_twice = run_form (handleSave example_env) (typed_A1 saved_A1)"

text \<open>The same, with a photo taken before the save button is pressed.\<close>

definition saved_with_photo :: App where
  "saved_with_photo =
     run_form (handleSave example_env) (run_form (pickImage example_env) (typed_A1 initial_app))"

definition photo_A1 :: ImageRef where
  "photo_A1 =
     \<lparr>uri = str ''file:///cache/photo.jpg'', name = str ''Parcelle_A1_2.jpg'', assetId = None\<rparr>"

text \<open>
  A platform for the list screen on which the user confirms, the store accepts the write
  and the gallery refuses: asking for the permission throws.
\<close>

definition gallery_fails_env :: IndexEnv where
  "gallery_fails_env =
     \<lparr>ix_getItem = Inr (), ix_getItem_again = Inr (), ix_setItem = Inr (), ix_removeItem = Inr (),
      ix_requestPermissions = Inl MediaLibraryError, deleteAssetsAsync = Inl MediaLibraryError,
      confirmed = True, getTime = (\<lambda>s. None), toLocaleDateString = (\<lambda>s. s),
      XLSX_write = (\<lambda>wb. Inr []), export_iso = str ''2024-05-02T08:30:00.000Z'',
      ix_documentDirectory = str ''file:///docs/'', writeAsStringAsync = Inr (),
      isAvailableAsync = Inr True, shareAsync = Inr ()\<rparr>"

text \<open>A record whose image is registered in the gallery, and a list screen that shows it.\<close>

definition asset_image :: ImageRef where
  "asset_image = photo_A1\<lparr>assetId := Some (str ''asset-7'')\<rparr>"

definition parcelle_with_asset :: Parcelle where
  "parcelle_with_asset = parcelle_A1\<lparr>image_p := Some asset_image\<rparr>"

definition parcelle_B2 :: Parcelle where
  "parcelle_B2 = parcelle_A1\<lparr>id_p := str ''4'', numeroDeLot := str ''B2''\<rparr>"

definition index_with_asset :: IndexState where
  "index_with_asset = initial_index\<lparr>parcelles_ix := [parcelle_B2, parcelle_with_asset]\<rparr>"

definition stored_with_asset :: World where
  "stored_with_asset = \<lparr>storage = Some [parcelle_with_asset, parcelle_B2], trace = []\<rparr>"

text \<open>Three records created on three consecutive days, and a platform that reads their dates.\<close>

definition day1 :: Parcelle where
  "day1 = parcelle_A1\<lparr>createdAt := str ''2024-05-01T10:00:00.000Z''\<rparr>"

definition day2 :: Parcelle where
  "day2 = parcelle_B2\<lparr>createdAt := str ''2024-05-02T10:00:00.000Z''\<rparr>"

definition day3 :: Parcelle where
  "day3 = parcelle_A1\<lparr>id_p := str ''5'', numeroDeLot := str ''C3'',
                       createdAt := str ''2024-05-03T10:00:00.000Z''\<rparr>"

definition calendar_env :: IndexEnv where
  "calendar_env =
     gallery_fails_env
       \<lparr>getTime :=
          (\<lambda>s. if s = str ''2024-05-01T10:00:00.000Z'' then Some 1714557600000
                else if s = str ''2024-05-02T10:00:00.000Z'' then Some 1714644000000
                else if s = str ''2024-05-03T10:00:00.000Z'' then Some 1714730400000
                else None)\<rparr>"

text \<open>
  Two saves during which the clock gives the same reading: after \<open>A1\<close> is saved, the user
  opens the form again, types the lot number \<open>B2\<close> and saves on the same platform, so
  \<open>Date.now()\<close> is \<open>3\<close> again. The list screen then gets the focus, and the user deletes
  the id \<open>3\<close>.
\<close>

definition typed_B2 :: "App \<Rightarrow> App" where
  "typed_B2 a =
     run_form (onChangeText NombreDeLogement (str ''10''))
       (run_form (onChangeText EtatDeParcelle (str ''Bon''))
          (run_form (onChangeText NumeroDeLot (str ''B2''))
             (run_form (loadParcelles_form example_env) (a\<lparr>form := initial_form\<rparr>))))"

definition twin_B2 :: Parcelle where
  "twin_B2 = parcelle_A1\<lparr>numeroDeLot := str ''B2''\<rparr>"

definition saved_twins :: App where
  "saved_twins = run_form (handleSave example_env) (typed_B2 saved_A1)"

definition listed_twins :: App where
  "listed_twins = run_index (loadParcelles calendar_env) saved_twins"

definition deleted_twins :: App where
  "deleted_twins =
     run_index (deleteParcelle calendar_env (str ''3'') None) listed_twins"

section \<open>Lemmas\<close>

subsection \<open>The rules of \<open>wp\<close>\<close>

lemma wp_ret: "wp (ret a) Q s = Q (Inr a) s"
  by (simp add: wp_def ret_def)

lemma wp_throw: "wp (throw e) Q s = Q (Inl e) s"
  by (simp add: wp_def throw_def)

lemma wp_seq:
  "wp (seq m f) Q s = wp m (\<lambda>r. case r of Inl e \<Rightarrow> Q (Inl e) | Inr a \<Rightarrow> wp (f a) Q) s"
  by (simp add: wp_def seq_def split: prod.split sum.split)

lemma wp_try_catch:
  "wp (try_catch m h) Q s = wp m (\<lambda>r. case r of Inl e \<Rightarrow> wp (h e) Q | Inr a \<Rightarrow> Q (Inr a)) s"
  by (simp add: wp_def try_catch_def split: prod.split sum.split)

lemma wp_try_finally:
  "wp (try_finally m fin) Q s =
     wp m (\<lambda>r. wp fin (\<lambda>r'. case r' of Inl e \<Rightarrow> Q (Inl e) | Inr u \<Rightarrow> Q r)) s"
  by (simp add: wp_def try_finally_def split: prod.split sum.split)

lemma wp_get_state: "wp get_state Q s = Q (Inr (fst s)) s"
  by (simp add: wp_def get_state_def)

lemma wp_set_state: "wp (set_state f) Q s = Q (Inr ()) (f (fst s), snd s)"
  by (simp add: wp_def set_state_def)

lemma wp_emit: "wp (emit ev) Q s = Q (Inr ()) (fst s, (snd s)\<lparr>trace := trace (snd s) @ [ev]\<rparr>)"
  by (simp add: wp_def emit_def)

lemma wp_await:
  "wp (await r) Q s = ((\<forall>e. r = Inl e \<longrightarrow> Q (Inl e) s) \<and> (\<forall>a. r = Inr a \<longrightarrow> Q (Inr a) s))"
  by (cases r) (simp_all add: wp_def await_def ret_def throw_def)

lemma wp_await_effect:
  "wp (await_effect r ev) Q s =
     ((\<forall>e. r = Inl e \<longrightarrow> Q (Inl e) s) \<and>
      (\<forall>a. r = Inr a \<longrightarrow> Q (Inr a) (fst s, (snd s)\<lparr>trace := trace (snd s) @ [ev]\<rparr>)))"
  by (cases r) (simp_all add: wp_def await_effect_def ret_def throw_def seq_def emit_def)

lemma wp_setItem:
  "wp (setItem r d) Q s =
     ((\<forall>e. r = Inl e \<longrightarrow> Q (Inl e) s) \<and>
      (r = Inr () \<longrightarrow> Q (Inr ()) (fst s, (snd s)\<lparr>storage := Some d\<rparr>)))"
  by (cases r) (simp_all add: wp_def setItem_def)

lemma wp_removeItem:
  "wp (removeItem r) Q s =
     ((\<forall>e. r = Inl e \<longrightarrow> Q (Inl e) s) \<and>
      (r = Inr () \<longrightarrow> Q (Inr ()) (fst s, (snd s)\<lparr>storage := None\<rparr>)))"
  by (cases r) (simp_all add: wp_def removeItem_def)

lemma wp_getItem:
  "wp (getItem r) Q s =
     ((\<forall>e. r = Inl e \<longrightarrow> Q (Inl e) s) \<and> (r = Inr () \<longrightarrow> Q (Inr (storage (snd s))) s))"
  by (cases r) (simp_all add: wp_def getItem_def)

lemma wp_if: "wp (if c then m1 else m2) Q s = ((c \<longrightarrow> wp m1 Q s) \<and> (\<not> c \<longrightarrow> wp m2 Q s))"
  by simp

lemma wp_case_option:
  "wp (case x of None \<Rightarrow> m1 | Some y \<Rightarrow> m2 y) Q s =
     ((x = None \<longrightarrow> wp m1 Q s) \<and> (\<forall>y. x = Some y \<longrightarrow> wp (m2 y) Q s))"
  by (cases x) simp_all

lemmas wp_rules = wp_ret wp_throw wp_seq wp_try_catch wp_try_finally wp_get_state wp_set_state
  wp_emit wp_await wp_await_effect wp_setItem wp_removeItem wp_getItem wp_if wp_case_option

subsection \<open>Trimming\<close>

lemma trim_split: "\<exists>c. dropWhile isWhiteSpace s = trim s @ c"
proof -
  have "dropWhile isWhiteSpace s =
        trim s @ rev (takeWhile isWhiteSpace (rev (dropWhile isWhiteSpace s)))"
    unfolding trim_def by (metis rev_append rev_rev_ident takeWhile_dropWhile_id)
  then show ?thesis by blast
qed

lemma trim_no_leading: "dropWhile isWhiteSpace (trim s) = trim s"
proof (cases "trim s")
  case Nil
  then show ?thesis by simp
next
  case (Cons x xs)
  obtain c where c: "dropWhile isWhiteSpace s = trim s @ c"
    using trim_split by blast
  then have "hd (dropWhile isWhiteSpace s) = x" and "dropWhile isWhiteSpace s \<noteq> []"
    using Cons by simp_all
  then have "\<not> isWhiteSpace x"
    using hd_dropWhile by blast
  then show ?thesis using Cons by simp
qed

lemma trim_no_trailing: "dropWhile isWhiteSpace (rev (trim s)) = rev (trim s)"
  by (simp add: trim_def)

lemma trim_idem: "trim (trim s) = trim s"
proof -
  have "trim (trim s) = rev (dropWhile isWhiteSpace (rev (dropWhile isWhiteSpace (trim s))))"
    by (simp add: trim_def)
  also have "\<dots> = rev (dropWhile isWhiteSpace (rev (trim s)))"
    by (simp add: trim_no_leading)
  also have "\<dots> = trim s"
    by (simp add: trim_no_trailing)
  finally show ?thesis .
qed

lemma Number_trim: "Number (trim s) = Number s"
  by (simp add: Number_def trim_idem)

lemma or_else_empty: "or_else s [] = s"
  by (simp add: or_else_def truthy_def)

subsection \<open>The validator\<close>

lemmas js_eval = str_def trim_def isWhiteSpace_def Number_def parse_unsigned_decimal_def
  parse_exponent_def parse_digits_def digit_in_def isDigit_def scale10_def le_zero_def
  negate_def isNaN_def truthy_def or_else_def is_positive_number_def

lemma find_lot_None:
  "find (\<lambda>p. numeroDeLot p = t) ps = None \<longleftrightarrow> t \<notin> set (map numeroDeLot ps)"
  by (auto simp: find_None_iff)

lemma find_lot_cases:
  "(case find (\<lambda>p. numeroDeLot p = t) ps of Some x \<Rightarrow> a | None \<Rightarrow> b) =
     (if t \<in> set (map numeroDeLot ps) then a else b)"
  using find_lot_None [of t ps] by (cases "find (\<lambda>p. numeroDeLot p = t) ps") auto

lemma is_positive_number_trim: "is_positive_number (trim s) = is_positive_number s"
  by (simp add: is_positive_number_def Number_trim)

lemma newErrors_rules:
  "newErrors r =
     rule_numeroDeLot (numeroDeLot_st r) (parcelles_st r)
     ++ rule_etatDeParcelle (etatDeParcelle_st r)
     ++ rule_nombreDeLogement (nombreDeLogement_st r)"
  unfolding newErrors_def Let_def find_lot_cases rule_numeroDeLot_def rule_etatDeParcelle_def
    rule_nombreDeLogement_def is_positive_number_trim
  by (simp add: truthy_def is_positive_number_def)

lemma dom_rule_numeroDeLot: "dom (rule_numeroDeLot lot ps) \<subseteq> {NumeroDeLot}"
  by (simp add: rule_numeroDeLot_def)

lemma dom_rule_etatDeParcelle: "dom (rule_etatDeParcelle e) \<subseteq> {EtatDeParcelle}"
  by (simp add: rule_etatDeParcelle_def)

lemma dom_rule_nombreDeLogement: "dom (rule_nombreDeLogement n) \<subseteq> {NombreDeLogement}"
  by (simp add: rule_nombreDeLogement_def)

lemma dom_newErrors:
  "dom (newErrors r) =
     dom (rule_numeroDeLot (numeroDeLot_st r) (parcelles_st r))
     \<union> dom (rule_etatDeParcelle (etatDeParcelle_st r))
     \<union> dom (rule_nombreDeLogement (nombreDeLogement_st r))"
  by (auto simp: newErrors_rules)

lemma dom_newErrors_subset: "dom (newErrors r) \<subseteq> {NumeroDeLot, EtatDeParcelle, NombreDeLogement}"
  using dom_rule_numeroDeLot [of "numeroDeLot_st r" "parcelles_st r"]
    dom_rule_etatDeParcelle [of "etatDeParcelle_st r"]
    dom_rule_nombreDeLogement [of "nombreDeLogement_st r"]
  unfolding dom_newErrors by blast

lemma Object_keys_empty: "Object_keys e = [] \<longleftrightarrow>
  e NumeroDeLot = None \<and> e EtatDeParcelle = None \<and> e NombreDeLogement = None \<and> e Acheve = None
  \<and> e EnCours = None"
  by (auto simp: Object_keys_def split: if_splits)

lemma no_keys_iff: "Object_keys e = [] \<longleftrightarrow> e = Map.empty"
proof
  assume "Object_keys e = []"
  then have "e k = None" for k
    by (cases k) (simp_all add: Object_keys_empty)
  then show "e = Map.empty" by (simp add: fun_eq_iff)
next
  assume "e = Map.empty"
  then show "Object_keys e = []" by (simp add: Object_keys_def)
qed

lemma validateForm_eq:
  "validateForm (r, w) = (Inr (newErrors r = Map.empty), (r\<lparr>errors_st := newErrors r\<rparr>, w))"
  by (simp add: validateForm_def seq_def get_state_def set_state_def ret_def no_keys_iff)

lemma newErrors_other_fields_valid:
  assumes "trim (numeroDeLot_st r) \<noteq> []"
    and "trim (numeroDeLot_st r) \<notin> set (map numeroDeLot (parcelles_st r))"
    and "trim (etatDeParcelle_st r) \<noteq> []"
  shows "newErrors (r\<lparr>nombreDeLogement_st := n\<rparr>) = rule_nombreDeLogement n"
  using assms by (simp add: newErrors_rules rule_numeroDeLot_def rule_etatDeParcelle_def)

lemma nombre_literals:
  "rule_nombreDeLogement (str ''0'') = [NombreDeLogement \<mapsto> msg_nombre_positif]"
  "rule_nombreDeLogement (str ''-3'') = [NombreDeLogement \<mapsto> msg_nombre_positif]"
  "rule_nombreDeLogement (str ''abc'') = [NombreDeLogement \<mapsto> msg_nombre_positif]"
  "rule_nombreDeLogement (str ''5'') = Map.empty"
  by (simp_all add: rule_nombreDeLogement_def js_eval)

lemma nombre_messages_differ: "msg_nombre_positif \<noteq> msg_nombre_requis"
  by (simp add: msg_nombre_positif_def msg_nombre_requis_def str_def)

subsection \<open>The invariant under the handlers of the form\<close>

lemma wf_collection_Nil: "wf_collection []"
  by (simp add: wf_collection_def)

lemma wf_collection_snoc:
  "wf_collection (ps @ [p]) \<longleftrightarrow>
     wf_collection ps \<and> numeroDeLot p \<notin> set (map numeroDeLot ps) \<and> normalized p \<and> no_assetId p"
  by (auto simp: wf_collection_def)

lemma wf_collection_filter: "wf_collection ps \<Longrightarrow> wf_collection (filter P ps)"
  by (auto simp: wf_collection_def distinct_map_filter list_all_iff)

lemma normalized_newParcelle: "normalized (newParcelle env r img)"
  by (simp add: normalized_def newParcelle_def trim_idem or_else_empty)

lemma no_assetId_newParcelle: "no_assetId (newParcelle env r img) \<longleftrightarrow> image_assetId img = None"
  by (simp add: no_assetId_def newParcelle_def)

lemma numeroDeLot_newParcelle: "numeroDeLot (newParcelle env r img) = trim (numeroDeLot_st r)"
  by (simp add: newParcelle_def)

lemma valid_lot_is_new:
  assumes "Object_keys (newErrors r) = []"
  shows "trim (numeroDeLot_st r) \<notin> set (map numeroDeLot (parcelles_st r))"
proof
  assume "trim (numeroDeLot_st r) \<in> set (map numeroDeLot (parcelles_st r))"
  then have "rule_numeroDeLot (numeroDeLot_st r) (parcelles_st r) NumeroDeLot \<noteq> None"
    by (simp add: rule_numeroDeLot_def)
  then have "newErrors r NumeroDeLot \<noteq> None"
    by (simp add: newErrors_rules rule_etatDeParcelle_def rule_nombreDeLogement_def map_add_def)
  then show False
    using assms by (simp add: no_keys_iff)
qed

lemma wf_collection_save:
  assumes "wf_collection (parcelles_st r)" and "Object_keys (newErrors r) = []"
    and "image_assetId img = None"
  shows "wf_collection (parcelles_st r @ [newParcelle env r img])"
  using assms valid_lot_is_new [of r]
  by (simp add: wf_collection_snoc normalized_newParcelle no_assetId_newParcelle
      numeroDeLot_newParcelle)

lemma store_inv_simps:
  "store_inv (w\<lparr>trace := t\<rparr>) = store_inv w"
  "store_inv (w\<lparr>storage := Some ps\<rparr>) = wf_collection ps"
  "store_inv (w\<lparr>storage := None\<rparr>)"
  by (simp_all add: store_inv_def)

lemma image_assetId_simps:
  "image_assetId None = None"
  "image_assetId (Some i) = assetId i"
  by (simp_all add: image_assetId_def)

lemma handleSave_form_inv:
  "form_inv s \<Longrightarrow> wp (handleSave env) (\<lambda>r. form_inv) s"
  apply (simp add: handleSave_def validateForm_def saveImageToMediaLibrary_def
      saveParcellesToStorage_def call_onSave_def reset_form_def wp_rules Let_def form_inv_def
      store_inv_simps image_assetId_simps
      split del: if_split)
  apply (auto simp: wf_collection_save image_assetId_simps)
  done

lemma handleSave_fs_form_inv:
  "form_inv s \<Longrightarrow> wp (handleSave_fs env) (\<lambda>r. form_inv) s"
  apply (simp add: handleSave_fs_def validateForm_def saveImageToFileSystem_def
      saveParcellesToStorage_def call_onSave_def reset_form_def wp_rules Let_def form_inv_def
      store_inv_simps image_assetId_simps
      split del: if_split)
  apply (auto simp: wf_collection_save image_assetId_simps)
  done

lemma pickImage_form_inv:
  "form_inv s \<Longrightarrow> wp (pickImage env) (\<lambda>r. form_inv) s"
  by (simp add: pickImage_def wp_rules Let_def form_inv_def store_inv_simps image_assetId_simps
      split del: if_split)

lemma pickImage_fs_form_inv:
  "form_inv s \<Longrightarrow> wp (pickImage_fs env) (\<lambda>r. form_inv) s"
  by (simp add: pickImage_fs_def wp_rules Let_def form_inv_def store_inv_simps image_assetId_simps
      split del: if_split)

lemma removeImage_form_inv:
  "form_inv s \<Longrightarrow> wp removeImage (\<lambda>r. form_inv) s"
  by (simp add: removeImage_def wp_rules form_inv_def image_assetId_simps)

lemma onChangeText_form_inv:
  "form_inv s \<Longrightarrow> wp (onChangeText k v) (\<lambda>r. form_inv) s"
  by (cases k) (simp_all add: onChangeText_def set_field_def wp_rules form_inv_def)

lemma loadParcelles_form_inv:
  "store_inv (snd s) \<Longrightarrow> fst s = initial_form \<Longrightarrow> wp (loadParcelles_form env) (\<lambda>r. form_inv) s"
  apply (simp add: loadParcelles_form_def wp_rules form_inv_def store_inv_simps
      image_assetId_simps initial_form_def wf_collection_Nil split del: if_split)
  apply (auto simp: store_inv_def)
  done

subsection \<open>The invariant under the handlers of the list screen\<close>

lemma mset_insert_sorted: "mset (insert_sorted cmp x ys) = add_mset x (mset ys)"
  by (induction ys) simp_all

lemma mset_Array_sort: "mset (Array_sort cmp xs) = mset xs"
  by (induction xs) (simp_all add: Array_sort_def mset_insert_sorted)

lemma wf_collection_mset:
  assumes "mset xs = mset ys"
  shows "wf_collection xs = wf_collection ys"
proof -
  have "mset (map numeroDeLot xs) = mset (map numeroDeLot ys)"
    using assms by (metis mset_map)
  then have "distinct (map numeroDeLot xs) = distinct (map numeroDeLot ys)"
    by (rule mset_eq_imp_distinct_iff)
  moreover have "set xs = set ys"
    using assms by (rule mset_eq_setD)
  ultimately show ?thesis
    by (simp add: wf_collection_def list_all_iff)
qed

lemma wf_collection_Array_sort: "wf_collection (Array_sort cmp xs) = wf_collection xs"
  by (rule wf_collection_mset) (rule mset_Array_sort)

lemma loadParcelles_index_inv:
  "index_inv s \<Longrightarrow> wp (loadParcelles env) (\<lambda>r. index_inv) s"
  apply (simp add: loadParcelles_def wp_rules index_inv_def store_inv_simps
      wf_collection_Array_sort wf_collection_Nil split del: if_split)
  apply (auto simp: store_inv_def)
  done

lemma onRefresh_index_inv:
  "index_inv s \<Longrightarrow> wp (onRefresh env) (\<lambda>r. index_inv) s"
  apply (simp add: onRefresh_def loadParcelles_def wp_rules index_inv_def store_inv_simps
      wf_collection_Array_sort wf_collection_Nil split del: if_split)
  apply (auto simp: store_inv_def)
  done

lemma deleteImageFromMediaLibrary_wp:
  "wp (deleteImageFromMediaLibrary env a) Q s =
     wp (deleteImageFromMediaLibrary env a) (\<lambda>r s'. r = Inr () \<and> Q (Inr ()) s') s"
  by (simp add: deleteImageFromMediaLibrary_def wp_rules split del: if_split)

lemma deleteParcelle_index_inv:
  "index_inv s \<Longrightarrow> wp (deleteParcelle env parcelleId img) (\<lambda>r. index_inv) s"
  apply (simp add: deleteParcelle_def deleteImageFromMediaLibrary_def loadParcelles_def wp_rules
      Let_def index_inv_def store_inv_simps wf_collection_Array_sort wf_collection_Nil
      wf_collection_filter split del: if_split)
  apply (auto simp: store_inv_def)
  done

lemma deleteAllParcelles_index_inv:
  "index_inv s \<Longrightarrow> wp (deleteAllParcelles env) (\<lambda>r. index_inv) s"
  by (simp add: deleteAllParcelles_def deleteAllMediaLibraryImages_def wp_rules
      Let_def index_inv_def store_inv_simps wf_collection_Nil split del: if_split)

lemma exportToExcel_index_inv:
  "index_inv s \<Longrightarrow> wp (exportToExcel env) (\<lambda>r. index_inv) s"
  by (simp add: exportToExcel_def wp_rules Let_def index_inv_def store_inv_simps
      wf_collection_Nil split del: if_split)

subsection \<open>The invariant in every reachable state\<close>

lemma run_form_inv:
  assumes "index_inv (index a, world a)" and "wp m (\<lambda>r. form_inv) (form a, world a)"
  shows "app_inv (run_form m a)"
  using assms
  by (auto simp: app_inv_def run_form_def wp_def form_inv_def index_inv_def split: prod.splits)

lemma run_index_inv:
  assumes "form_inv (form a, world a)" and "wp m (\<lambda>r. index_inv) (index a, world a)"
  shows "app_inv (run_index m a)"
  using assms
  by (auto simp: app_inv_def run_index_def wp_def form_inv_def index_inv_def split: prod.splits)

lemma app_inv_initial: "app_inv initial_app"
  by (simp add: app_inv_def initial_app_def form_inv_def index_inv_def initial_form_def
      initial_index_def store_inv_def wf_collection_Nil image_assetId_simps)

lemma reachable_app_inv: "reachable a \<Longrightarrow> app_inv a"
proof (induction rule: reachable.induct)
  case start
  show ?case by (rule app_inv_initial)
next
  case (mount_form a env)
  let ?a = "a\<lparr>form := initial_form\<rparr>"
  have "index_inv (index ?a, world ?a)"
    using mount_form.IH by (simp add: app_inv_def)
  moreover have "wp (loadParcelles_form env) (\<lambda>r. form_inv) (form ?a, world ?a)"
    using mount_form.IH by (intro loadParcelles_form_inv) (simp_all add: app_inv_def index_inv_def)
  ultimately show ?case by (rule run_form_inv)
next
  case (change_text a k v)
  then show ?case by (intro run_form_inv onChangeText_form_inv) (simp_all add: app_inv_def)
next
  case (pick_image a env)
  then show ?case by (intro run_form_inv pickImage_form_inv) (simp_all add: app_inv_def)
next
  case (pick_image_fs a env)
  then show ?case by (intro run_form_inv pickImage_fs_form_inv) (simp_all add: app_inv_def)
next
  case (remove_image a)
  then show ?case by (intro run_form_inv removeImage_form_inv) (simp_all add: app_inv_def)
next
  case (save a env)
  then show ?case by (intro run_form_inv handleSave_form_inv) (simp_all add: app_inv_def)
next
  case (save_fs a env)
  then show ?case by (intro run_form_inv handleSave_fs_form_inv) (simp_all add: app_inv_def)
next
  case (focus a ienv)
  then show ?case by (intro run_index_inv loadParcelles_index_inv) (simp_all add: app_inv_def)
next
  case (refresh a ienv)
  then show ?case by (intro run_index_inv onRefresh_index_inv) (simp_all add: app_inv_def)
next
  case (delete a ienv parcelleId img)
  then show ?case by (intro run_index_inv deleteParcelle_index_inv) (simp_all add: app_inv_def)
next
  case (delete_all a ienv)
  then show ?case by (intro run_index_inv deleteAllParcelles_index_inv) (simp_all add: app_inv_def)
next
  case (export a ienv)
  then show ?case by (intro run_index_inv exportToExcel_index_inv) (simp_all add: app_inv_def)
qed

subsection \<open>Runs of the handlers\<close>

lemma wp_eq: "wp m (\<lambda>r s'. (r, s') = x) s \<longleftrightarrow> m s = x"
  by (cases "m s") (simp add: wp_def)

lemma run_form_eq: "m (form a, world a) = (r, (f, w)) \<Longrightarrow> run_form m a = a\<lparr>form := f, world := w\<rparr>"
  by (simp add: run_form_def)

lemma onChangeText_eq:
  "onChangeText k v (f, w) = (Inr (), ((set_field k v f)\<lparr>errors_st := (errors_st f)(k := None)\<rparr>, w))"
  by (simp add: onChangeText_def set_state_def)

lemma loadParcelles_form_ok:
  assumes "form_getItem env = Inr ()"
  shows "loadParcelles_form env (f, w) =
           (Inr (), (case storage w of None \<Rightarrow> f | Some ps \<Rightarrow> f\<lparr>parcelles_st := ps\<rparr>), w)"
  apply (rule iffD1 [OF wp_eq])
  apply (simp add: loadParcelles_form_def wp_rules assms split: option.split)
  done

lemma handleSave_rejected:
  assumes "newErrors r \<noteq> Map.empty"
  shows "handleSave env (r, w) = (Inr (), (r\<lparr>errors_st := newErrors r\<rparr>, w))"
  apply (rule iffD1 [OF wp_eq])
  apply (simp add: handleSave_def wp_rules validateForm_def no_keys_iff assms split del: if_split)
  done

lemma handleSave_fs_rejected:
  assumes "newErrors r \<noteq> Map.empty"
  shows "handleSave_fs env (r, w) = (Inr (), (r\<lparr>errors_st := newErrors r\<rparr>, w))"
  apply (rule iffD1 [OF wp_eq])
  apply (simp add: handleSave_fs_def wp_rules validateForm_def no_keys_iff assms split del: if_split)
  done

lemma handleSave_saved_plain:
  assumes "newErrors r = Map.empty" and "image_st r = None" and "form_setItem env = Inr ()"
    and "onSave env = None"
  shows "handleSave env (r, w) =
     (Inr (),
      (reset_form (r\<lparr>errors_st := Map.empty, isSaving_st := False,
                      parcelles_st := parcelles_st r @ [newParcelle env r None]\<rparr>),
       w\<lparr>storage := Some (parcelles_st r @ [newParcelle env r None]),
         trace := trace w @ [Alert msg_succes msg_sauvegardee, RouterBack]\<rparr>))"
  apply (rule iffD1 [OF wp_eq])
  apply (simp add: handleSave_def wp_rules validateForm_def saveParcellesToStorage_def
      call_onSave_def no_keys_iff assms reset_form_def Let_def split del: if_split)
  done

lemma typed_A1_eq:
  "typed_A1 a =
     a\<lparr>form := initial_form\<lparr>numeroDeLot_st := str '' A1 '', etatDeParcelle_st := str ''Bon'',
                  nombreDeLogement_st := str ''10'',
                  parcelles_st := (case storage (world a) of None \<Rightarrow> [] | Some ps \<Rightarrow> ps)\<rparr>\<rparr>"
proof -
  have g: "form_getItem example_env = Inr ()"
    by (simp add: example_env_def)
  have e: "Map.empty(k := None) = (Map.empty :: errors)" for k
    by simp
  show ?thesis
    unfolding typed_A1_def
    by (simp add: run_form_def onChangeText_eq loadParcelles_form_ok [OF g]
        set_field_def initial_form_def split: option.split)
qed

lemma newErrors_typed_A1_fresh: "newErrors (form (typed_A1 initial_app)) = Map.empty"
  by (simp add: typed_A1_eq initial_app_def newErrors_rules rule_numeroDeLot_def
      rule_etatDeParcelle_def rule_nombreDeLogement_def initial_form_def js_eval)

lemma newParcelle_typed_A1: "newParcelle example_env (form (typed_A1 a)) None = parcelle_A1"
  by (simp add: typed_A1_eq newParcelle_def parcelle_A1_def initial_form_def example_env_def
      js_eval toString_def digits_of.simps digit_char_def)

lemma saved_A1_eval:
  "parcelles_st (form saved_A1) = [parcelle_A1]" "storage (world saved_A1) = Some [parcelle_A1]"
proof -
  have i: "image_st (form (typed_A1 initial_app)) = None"
    by (simp add: typed_A1_eq initial_form_def)
  have s: "form_setItem example_env = Inr ()" and o: "onSave example_env = None"
    by (simp_all add: example_env_def)
  have p: "parcelles_st (form (typed_A1 initial_app)) = []"
    by (simp add: typed_A1_eq initial_app_def)
  note eq = handleSave_saved_plain [OF newErrors_typed_A1_fresh i s o]
  show "parcelles_st (form saved_A1) = [parcelle_A1]"
    unfolding saved_A1_def by (simp add: run_form_def eq reset_form_def newParcelle_typed_A1 p)
  show "storage (world saved_A1) = Some [parcelle_A1]"
    unfolding saved_A1_def by (simp add: run_form_def eq newParcelle_typed_A1 p)
qed

subsection \<open>Lot numbers\<close>

lemma newErrors_lot:
  "newErrors r NumeroDeLot = rule_numeroDeLot (numeroDeLot_st r) (parcelles_st r) NumeroDeLot"
  by (simp add: newErrors_rules map_add_def rule_etatDeParcelle_def rule_nombreDeLogement_def)

lemma existing_lot_error:
  assumes "trim (numeroDeLot_st r) \<in> set (map numeroDeLot (parcelles_st r))"
  shows "newErrors r NumeroDeLot =
           Some (if trim (numeroDeLot_st r) = [] then msg_lot_requis else msg_lot_existe)"
  using assms by (simp add: newErrors_lot rule_numeroDeLot_def)

lemma wf_collection_trimmed_distinct:
  assumes "wf_collection ps"
  shows "distinct (map (\<lambda>p. trim (numeroDeLot p)) ps)"
proof -
  have eq: "map (\<lambda>p. trim (numeroDeLot p)) ps = map numeroDeLot ps"
    using assms by (auto simp: wf_collection_def list_all_iff normalized_def)
  show ?thesis
    unfolding eq using assms by (simp add: wf_collection_def)
qed

lemma reachable_typed_A1: "reachable a \<Longrightarrow> reachable (typed_A1 a)"
  unfolding typed_A1_def by (intro reachable.change_text reachable.mount_form)

lemma reachable_saved_A1_twice: "reachable saved_A1_twice"
  unfolding saved_A1_twice_def saved_A1_def
  by (intro reachable.save reachable_typed_A1 reachable.start)

subsection \<open>What the save handlers append\<close>

lemma wp_alt: "wp m Q s = Q (fst (m s)) (snd (m s))"
  by (simp add: wp_def split: prod.split)

lemma handleSave_appends:
  "wp (handleSave env)
      (\<lambda>res s'. parcelles_st (fst s') = parcelles_st r \<or>
                 (\<exists>img. parcelles_st (fst s') = parcelles_st r @ [newParcelle env r img]))
      (r, w)"
  apply (simp add: handleSave_def validateForm_def saveImageToMediaLibrary_def
      saveParcellesToStorage_def call_onSave_def reset_form_def wp_rules Let_def
      split del: if_split)
  apply auto
  done

lemma handleSave_fs_appends:
  "wp (handleSave_fs env)
      (\<lambda>res s'. parcelles_st (fst s') = parcelles_st r \<or>
                 (\<exists>img. parcelles_st (fst s') = parcelles_st r @ [newParcelle env r img]))
      (r, w)"
  apply (simp add: handleSave_fs_def validateForm_def saveImageToFileSystem_def
      saveParcellesToStorage_def call_onSave_def reset_form_def wp_rules Let_def
      split del: if_split)
  apply auto
  done

lemma app_inv_normalized:
  assumes "app_inv a"
  shows "list_all normalized (parcelles_st (form a))"
    and "list_all normalized (parcelles_ix (index a))"
    and "case storage (world a) of None \<Rightarrow> True | Some ps \<Rightarrow> list_all normalized ps"
  using assms
  by (auto simp: app_inv_def form_inv_def index_inv_def store_inv_def wf_collection_def
      split: option.split)

lemma reachable_saved_A1: "reachable saved_A1"
  unfolding saved_A1_def by (intro reachable.save reachable_typed_A1 reachable.start)

subsection \<open>The gallery save\<close>

lemma saveImageToMediaLibrary_result:
  "wp (saveImageToMediaLibrary env r imageUri imageName)
      (\<lambda>res s'. \<forall>m. res = Inr (Some m) \<longrightarrow> assetId m = None \<and> uri m = imageUri) s"
  by (simp add: saveImageToMediaLibrary_def wp_rules Let_def split del: if_split)

text \<open>The name under which the gallery variant registers the copy.\<close>

lemma saveImageToMediaLibrary_ok:
  assumes "requestMediaPermissions env = Inr True" and "copyAsync env = Inr ()"
    and "saveToLibraryAsync env = Inr ()" and "deleteAsync env = Inr ()"
  shows "wp (saveImageToMediaLibrary env r imageUri imageName)
      (\<lambda>res s'. res = Inr (Some \<lparr>uri = imageUri,
                                     name = str ''Parcelle_''
                   @ (if truthy (trim (numeroDeLot_st r)) then trim (numeroDeLot_st r)
                      else toString (now_name env))
                   @ str ''_'' @ toString (now_stamp env) @ str ''.jpg'',
                                     assetId = None\<rparr>)) s"
  by (simp add: saveImageToMediaLibrary_def wp_rules Let_def assms split del: if_split)

lemma app_inv_no_assetId:
  assumes "app_inv a"
  shows "list_all no_assetId (parcelles_st (form a))"
    and "list_all no_assetId (parcelles_ix (index a))"
    and "case storage (world a) of None \<Rightarrow> True | Some ps \<Rightarrow> list_all no_assetId ps"
    and "image_assetId (image_st (form a)) = None"
  using assms
  by (auto simp: app_inv_def form_inv_def index_inv_def store_inv_def wf_collection_def
      split: option.split)

lemma pickImage_ok:
  assumes "requestCameraPermissions env = Inr True" and "requestMediaPermissions env = Inr True"
    and "launchCamera env = Inr (Some u)"
  shows "pickImage env (r, w) =
     (Inr (),
      (r\<lparr>isLoading_st := False,
         image_st := Some \<lparr>uri = u,
                           name = str ''Parcelle_'' @ or_else (trim (numeroDeLot_st r)) (str ''temp'')
                                  @ str ''_'' @ toString (now_stamp env) @ str ''.jpg'',
                           assetId = None\<rparr>\<rparr>, w))"
  apply (rule iffD1 [OF wp_eq])
  apply (simp add: pickImage_def wp_rules Let_def assms split del: if_split)
  done

lemma handleSave_saved_photo:
  assumes "newErrors r = Map.empty" and "image_st r = Some i"
    and "requestMediaPermissions env = Inr True" and "copyAsync env = Inr ()"
    and "saveToLibraryAsync env = Inr ()" and "deleteAsync env = Inr ()"
    and "form_setItem env = Inr ()" and "onSave env = None"
  shows "wp (handleSave env)
     (\<lambda>res s'.
         parcelles_st (fst s') =
           parcelles_st r @ [newParcelle env r (Some \<lparr>uri = uri i,
                   name = str ''Parcelle_''
                   @ (if truthy (trim (numeroDeLot_st r)) then trim (numeroDeLot_st r)
                      else toString (now_name env))
                   @ str ''_'' @ toString (now_stamp env) @ str ''.jpg'',
                   assetId = None\<rparr>)]
         \<and> storage (snd s') = Some (parcelles_st (fst s')))
     (r, w)"
  apply (simp add: handleSave_def wp_rules validateForm_def saveParcellesToStorage_def
      saveImageToMediaLibrary_def call_onSave_def no_keys_iff assms reset_form_def Let_def
      split del: if_split)
  done

lemma run_form_parcelles:
  "wp m (\<lambda>res s'. parcelles_st (fst s') = ps \<and> R s') (form a, world a) \<Longrightarrow>
     parcelles_st (form (run_form m a)) = ps"
  by (auto simp: wp_def run_form_def split: prod.splits)

lemma reachable_saved_with_photo: "reachable saved_with_photo"
  unfolding saved_with_photo_def
  by (intro reachable.save reachable.pick_image reachable_typed_A1 reachable.start)

lemma saved_with_photo_eval:
  "parcelles_st (form saved_with_photo) = [parcelle_A1\<lparr>image_p := Some photo_A1\<rparr>]"
proof -
  let ?r = "form (typed_A1 initial_app)"
  let ?i = "\<lparr>uri = str ''file:///cache/photo.jpg'',
             name = str ''Parcelle_'' @ or_else (trim (numeroDeLot_st ?r)) (str ''temp'')
                    @ str ''_'' @ toString (now_stamp example_env) @ str ''.jpg'',
             assetId = None\<rparr>"
  let ?a = "run_form (pickImage example_env) (typed_A1 initial_app)"
  have pick: "pickImage example_env (?r, world (typed_A1 initial_app)) =
     (Inr (), (?r\<lparr>isLoading_st := False, image_st := Some ?i\<rparr>, world (typed_A1 initial_app)))"
    by (rule pickImage_ok) (simp_all add: example_env_def)
  have a: "form ?a = ?r\<lparr>isLoading_st := False, image_st := Some ?i\<rparr>"
    by (simp add: run_form_def pick)
  have ne: "newErrors (form ?a) = Map.empty"
    using newErrors_typed_A1_fresh by (simp add: a newErrors_rules)
  have im: "image_st (form ?a) = Some ?i"
    by (simp add: a)
  have ps: "parcelles_st (form ?a) = []"
    unfolding a by (simp add: typed_A1_eq initial_app_def)
  have lot: "trim (numeroDeLot_st (form ?a)) = str ''A1''"
    unfolding a by (simp add: typed_A1_eq js_eval)
  have "newParcelle example_env (form ?a) x =
          (newParcelle example_env ?r None)\<lparr>image_p := x\<rparr>" for x
    by (simp add: a newParcelle_def)
  then have np: "newParcelle example_env (form ?a) x = parcelle_A1\<lparr>image_p := x\<rparr>" for x
    by (simp only: newParcelle_typed_A1)
  have "wp (handleSave example_env)
     (\<lambda>res s'.
         parcelles_st (fst s') =
           parcelles_st (form ?a) @ [newParcelle example_env (form ?a)
              (Some \<lparr>uri = uri ?i,
                 name = str ''Parcelle_''
                   @ (if truthy (trim (numeroDeLot_st (form ?a))) then trim (numeroDeLot_st (form ?a))
                      else toString (now_name example_env))
                   @ str ''_'' @ toString (now_stamp example_env) @ str ''.jpg'',
                 assetId = None\<rparr>)]
         \<and> storage (snd s') = Some (parcelles_st (fst s')))
     (form ?a, world ?a)"
    by (rule handleSave_saved_photo [OF ne im]) (simp_all add: example_env_def)
  then have "parcelles_st (form (run_form (handleSave example_env) ?a)) =
           parcelles_st (form ?a) @ [newParcelle example_env (form ?a)
              (Some \<lparr>uri = uri ?i,
                 name = str ''Parcelle_''
                   @ (if truthy (trim (numeroDeLot_st (form ?a))) then trim (numeroDeLot_st (form ?a))
                      else toString (now_name example_env))
                   @ str ''_'' @ toString (now_stamp example_env) @ str ''.jpg'',
                 assetId = None\<rparr>)]"
    by (rule run_form_parcelles)
  then have "parcelles_st (form saved_with_photo) =
      [parcelle_A1\<lparr>image_p := Some \<lparr>uri = str ''file:///cache/photo.jpg'',
          name = str ''Parcelle_'' @ str ''A1'' @ str ''_'' @ toString (now_stamp example_env)
                 @ str ''.jpg'',
          assetId = None\<rparr>\<rparr>]"
    unfolding saved_with_photo_def ps np lot by (simp add: truthy_def str_def)
  then show ?thesis
    by (simp add: photo_A1_def example_env_def str_def toString_def digits_of.simps digit_char_def)
qed

subsection \<open>Deleting a record\<close>

lemma deleteImageFromMediaLibrary_returns:
  "wp (deleteImageFromMediaLibrary env a)
      (\<lambda>res s'. res = Inr () \<and> fst s' = fst s \<and> storage (snd s') = storage (snd s)) s"
  by (simp add: deleteImageFromMediaLibrary_def wp_rules split del: if_split split: option.split)

lemma deleteParcelle_confirmed:
  assumes "confirmed env" and "ix_setItem env = Inr ()"
  shows "wp (deleteParcelle env parcelleId img)
      (\<lambda>res s'. res = Inr ()
         \<and> parcelles_ix (fst s') = filter (\<lambda>p. id_p p \<noteq> parcelleId) (parcelles_ix x)
         \<and> storage (snd s') = Some (filter (\<lambda>p. id_p p \<noteq> parcelleId) (parcelles_ix x))
         \<and> isDeleting_ix (fst s') = None
         \<and> last (trace (snd s')) = Alert msg_succes msg_supprimee)
      (x, w)"
  by (simp add: deleteParcelle_def deleteImageFromMediaLibrary_def wp_rules Let_def assms
      split del: if_split split: option.split)

lemma deleteParcelle_cancelled:
  assumes "\<not> confirmed env"
  shows "deleteParcelle env parcelleId img (x, w) =
     (Inr (), (x, w\<lparr>trace := trace w @ [Alert (str ''Confirmer la suppression'') msg_confirmer_une]\<rparr>))"
  apply (rule iffD1 [OF wp_eq])
  apply (simp add: deleteParcelle_def wp_rules assms split del: if_split)
  done

lemma filter_other_ids_absent:
  "parcelleId \<notin> set (map id_p ps) \<Longrightarrow> filter (\<lambda>p. id_p p \<noteq> parcelleId) ps = ps"
  by (induction ps) auto

lemma filter_other_ids_remove1:
  "distinct (map id_p ps) \<Longrightarrow> p \<in> set ps \<Longrightarrow>
     filter (\<lambda>q. id_p q \<noteq> id_p p) ps = remove1 p ps"
proof (induction ps)
  case Nil
  then show ?case by simp
next
  case (Cons a ps)
  show ?case
  proof (cases "a = p")
    case True
    then have "id_p p \<notin> set (map id_p ps)"
      using Cons.prems by simp
    then show ?thesis
      using True by (simp add: filter_other_ids_absent)
  next
    case False
    then have "p \<in> set ps" and "id_p a \<noteq> id_p p"
      using Cons.prems by auto
    then show ?thesis
      using False Cons by simp
  qed
qed

subsection \<open>Sorting by creation date\<close>

lemma insert_sorted_insort_key:
  assumes "getTime env (createdAt x) \<noteq> None" and "valid_dates env ys"
  shows "insert_sorted (compare_createdAt env) x ys =
           insort_key (\<lambda>p. - the (getTime env (createdAt p))) x ys"
  using assms(2)
proof (induction ys)
  case Nil
  show ?case by simp
next
  case (Cons y ys)
  then have y: "getTime env (createdAt y) \<noteq> None" and ys: "valid_dates env ys"
    by (simp_all add: valid_dates_def)
  have "goes_after (compare_createdAt env) x y \<longleftrightarrow>
          \<not> - the (getTime env (createdAt x)) \<le> - the (getTime env (createdAt y))"
    using assms(1) y by (auto simp: goes_after_def compare_createdAt_def)
  then show ?case
    using Cons.IH [OF ys] by simp
qed

lemma valid_dates_sort_key: "valid_dates env (sort_key f ps) = valid_dates env ps"
  by (simp add: valid_dates_def list_all_iff)

lemma Array_sort_sort_key:
  "valid_dates env ps \<Longrightarrow>
     Array_sort (compare_createdAt env) ps = sort_key (\<lambda>p. - the (getTime env (createdAt p))) ps"
proof (induction ps)
  case Nil
  show ?case by (simp add: Array_sort_def)
next
  case (Cons p ps)
  then have p: "getTime env (createdAt p) \<noteq> None" and ps: "valid_dates env ps"
    by (simp_all add: valid_dates_def)
  have "Array_sort (compare_createdAt env) (p # ps) =
          insert_sorted (compare_createdAt env) p (Array_sort (compare_createdAt env) ps)"
    by (simp add: Array_sort_def)
  also have "\<dots> = insert_sorted (compare_createdAt env) p
                     (sort_key (\<lambda>p. - the (getTime env (createdAt p))) ps)"
    using Cons.IH [OF ps] by simp
  also have "\<dots> = insort_key (\<lambda>p. - the (getTime env (createdAt p))) p
                     (sort_key (\<lambda>p. - the (getTime env (createdAt p))) ps)"
    using p ps by (intro insert_sorted_insort_key) (simp_all add: valid_dates_sort_key)
  finally show ?case by (simp add: sort_key_def)
qed

lemma newest_first_sorted:
  assumes "valid_dates env ps"
    and "sorted (map (\<lambda>p. - the (getTime env (createdAt p))) ps)"
  shows "newest_first env ps"
proof -
  have s: "sorted_wrt (\<lambda>a b. - the (getTime env (createdAt a)) \<le> - the (getTime env (createdAt b))) ps"
    using assms(2) by (simp add: sorted_map)
  have v: "getTime env (createdAt p) \<noteq> None" if "p \<in> set ps" for p
    using assms(1) that by (simp add: valid_dates_def list_all_iff)
  show ?thesis
    unfolding newest_first_def
  proof (rule sorted_wrt_mono_rel [OF _ s])
    fix a b
    assume "a \<in> set ps" and "b \<in> set ps"
      and "- the (getTime env (createdAt a)) \<le> - the (getTime env (createdAt b))"
    then show "case (getTime env (createdAt a), getTime env (createdAt b)) of
                 (Some ta, Some tb) \<Rightarrow> tb \<le> ta
               | _ \<Rightarrow> False"
      using v [of a] v [of b] by auto
  qed
qed

lemma newest_first_Array_sort:
  assumes "valid_dates env ps"
  shows "newest_first env (Array_sort (compare_createdAt env) ps)"
  unfolding Array_sort_sort_key [OF assms]
  by (rule newest_first_sorted) (simp_all add: valid_dates_sort_key assms)

lemma loadParcelles_loaded:
  assumes "ix_getItem env = Inr ()" and "storage w = Some ps"
  shows "loadParcelles env (x, w) =
     (Inr (),
      (x\<lparr>isLoading_ix := False, parcelles_ix := Array_sort (compare_createdAt env) ps\<rparr>, w))"
  apply (rule iffD1 [OF wp_eq])
  apply (simp add: loadParcelles_def wp_rules assms split del: if_split)
  done

lemma Array_sort_three:
  assumes "getTime env (createdAt a) = Some t1" and "getTime env (createdAt b) = Some t2"
    and "getTime env (createdAt c) = Some t3" and "t1 < t2" and "t2 < t3"
  shows "Array_sort (compare_createdAt env) [a, b, c] = [c, b, a]"
  using assms by (simp add: Array_sort_def goes_after_def compare_createdAt_def)

subsection \<open>The exported sheet\<close>

lemmas key_defs = key_sequentiel_def key_lot_def key_etat_def key_logements_def key_acheves_def
  key_en_cours_def key_nom_image_def key_contient_image_def key_galerie_def key_date_def
  key_id_def

lemma distinct_export_header: "distinct export_header"
  by (simp add: export_header_def key_defs str_def)

lemma length_export_header: "length export_header = 11"
  by (simp add: export_header_def)

lemma keys_row_object: "map fst (row_object env p i) = export_header"
  by (simp add: row_object_def export_header_def)

lemma values_row_object: "map (\<lambda>kv. Some (snd kv)) (row_object env p i) = data_row env p i"
  by (auto simp: row_object_def data_row_def or_else_def truthy_def truthy_opt_def formatDate_def
      split: option.split)

lemma add_keys_known:
  "set (map fst obj) \<subseteq> set hdr \<Longrightarrow> add_keys obj hdr = hdr"
  unfolding add_keys_def by (induction obj arbitrary: hdr) simp_all

lemma add_keys_new:
  "distinct (map fst obj) \<Longrightarrow> set (map fst obj) \<inter> set hdr = {} \<Longrightarrow>
     add_keys obj hdr = hdr @ map fst obj"
  unfolding add_keys_def
proof (induction obj arbitrary: hdr)
  case Nil
  show ?case by simp
next
  case (Cons kv obj)
  have "fold (\<lambda>kv h. if fst kv \<in> set h then h else h @ [fst kv]) obj (hdr @ [fst kv]) =
          (hdr @ [fst kv]) @ map fst obj"
    using Cons.prems by (intro Cons.IH) auto
  then show ?case
    using Cons.prems by simp
qed

lemma fold_add_keys_known:
  "\<forall>obj \<in> set objs. set (map fst obj) \<subseteq> set hdr \<Longrightarrow> fold add_keys objs hdr = hdr"
  by (induction objs) (simp_all add: add_keys_known)

lemma sheet_header_uniform:
  assumes "objs \<noteq> []" and "\<forall>obj \<in> set objs. map fst obj = ks" and "distinct ks"
  shows "sheet_header objs = ks"
proof -
  obtain obj rest where o: "objs = obj # rest"
    using assms(1) by (cases objs) auto
  then have k: "map fst obj = ks"
    using assms(2) by simp
  have "add_keys obj [] = ks"
    using add_keys_new [of obj "[]"] assms(3) k by simp
  moreover have "fold add_keys rest ks = ks"
    using assms(2) o by (intro fold_add_keys_known) auto
  ultimately show ?thesis
    by (simp add: sheet_header_def o)
qed

lemma map_of_own_keys:
  "distinct (map fst obj) \<Longrightarrow> map (map_of obj) (map fst obj) = map (\<lambda>kv. Some (snd kv)) obj"
proof (induction obj)
  case Nil
  show ?case by simp
next
  case (Cons kv obj)
  have other: "map_of (kv # obj) k = map_of obj k" if "k \<in> set (map fst obj)" for k
  proof -
    have "fst kv \<notin> set (map fst obj)"
      using Cons.prems by simp
    then have "k \<noteq> fst kv"
      using that by blast
    then show ?thesis
      by (cases kv) simp
  qed
  have "map (map_of (kv # obj)) (map fst obj) = map (map_of obj) (map fst obj)"
    using other by (intro map_cong refl)
  then show ?case
    using Cons by (cases kv) simp
qed

lemma excelData_map:
  "map f (excelData env ps) = map (\<lambda>(i, p). f (row_object env p i)) (enumerate 0 ps)"
  by (simp add: excelData_def case_prod_unfold comp_def)

lemma json_to_sheet_excelData:
  assumes "ps \<noteq> []"
  shows "rows (json_to_sheet (excelData env ps)) = export_rows env ps"
proof -
  have "length (excelData env ps) = length ps"
    by (simp add: excelData_def)
  then have ne: "excelData env ps \<noteq> []"
    using assms by auto
  have ks: "\<forall>obj \<in> set (excelData env ps). map fst obj = export_header"
    by (auto simp: excelData_def keys_row_object)
  have h: "sheet_header (excelData env ps) = export_header"
    using ne ks distinct_export_header by (rule sheet_header_uniform)
  have "map (\<lambda>obj. map (map_of obj) export_header) (excelData env ps) =
        map (\<lambda>(i, p). map (map_of (row_object env p i)) export_header) (enumerate 0 ps)"
    by (rule excelData_map)
  also have "\<dots> = map (\<lambda>(i, p). data_row env p i) (enumerate 0 ps)"
  proof (rule map_cong [OF refl])
    fix ip
    assume "ip \<in> set (enumerate 0 ps)"
    obtain i p where ip: "ip = (i, p)" by (cases ip)
    have "map (map_of (row_object env p i)) (map fst (row_object env p i)) =
            map (\<lambda>kv. Some (snd kv)) (row_object env p i)"
      by (rule map_of_own_keys) (simp add: keys_row_object distinct_export_header)
    then show "(case ip of (i, p) \<Rightarrow> map (map_of (row_object env p i)) export_header) =
               (case ip of (i, p) \<Rightarrow> data_row env p i)"
      by (simp add: ip keys_row_object values_row_object)
  qed
  finally show ?thesis
    by (simp add: json_to_sheet_def Let_def h export_rows_def)
qed

lemma sheets_export_workbook:
  assumes "ps \<noteq> []"
  shows "sheets (export_workbook env ps) =
           [(str ''Liste des Parcelles'', \<lparr>rows = export_rows env ps, cols = colWidths\<rparr>)]"
proof -
  have "json_to_sheet (excelData env ps) = \<lparr>rows = export_rows env ps, cols = []\<rparr>"
    using json_to_sheet_excelData [OF assms, of env] by (simp add: json_to_sheet_def Let_def)
  then show ?thesis
    by (simp add: export_workbook_def book_new_def book_append_sheet_def Let_def)
qed

lemma export_rows_nth:
  assumes "i < length ps"
  shows "export_rows env ps ! (i + 1) = data_row env (ps ! i) i"
  using assms by (simp add: export_rows_def nth_enumerate_eq)

lemma length_data_row: "length (data_row env p i) = 11"
  by (simp add: data_row_def)

lemma export_rows_widths: "list_all (\<lambda>row. length row = 11) (export_rows env ps)"
  by (auto simp: export_rows_def list_all_iff length_export_header length_data_row)

lemma exportToExcel_hands_workbook:
  assumes "parcelles_ix x \<noteq> []"
    and "XLSX_write env (export_workbook env (parcelles_ix x)) = Inr out"
  shows "wp (exportToExcel env)
      (\<lambda>res s'. take (length (trace w) + 1) (trace (snd s')) =
                   trace w @ [XlsxWrite (export_workbook env (parcelles_ix x))])
      (x, w)"
  by (simp add: exportToExcel_def wp_rules Let_def assms split del: if_split)

subsection \<open>Two records with one id\<close>

lemma typed_B2_eq:
  "typed_B2 a =
     a\<lparr>form := initial_form\<lparr>numeroDeLot_st := str ''B2'', etatDeParcelle_st := str ''Bon'',
                  nombreDeLogement_st := str ''10'',
                  parcelles_st := (case storage (world a) of None \<Rightarrow> [] | Some ps \<Rightarrow> ps)\<rparr>\<rparr>"
proof -
  have g: "form_getItem example_env = Inr ()"
    by (simp add: example_env_def)
  show ?thesis
    unfolding typed_B2_def
    by (simp add: run_form_def onChangeText_eq loadParcelles_form_ok [OF g]
        set_field_def initial_form_def split: option.split)
qed

lemma reachable_typed_B2: "reachable a \<Longrightarrow> reachable (typed_B2 a)"
  unfolding typed_B2_def by (intro reachable.change_text reachable.mount_form)

lemma reachable_listed_twins: "reachable listed_twins"
  unfolding listed_twins_def saved_twins_def
  by (intro reachable.focus reachable.save reachable_typed_B2 reachable_saved_A1)

lemma saved_twins_eval:
  "storage (world saved_twins) = Some [parcelle_A1, twin_B2]"
proof -
  let ?r = "form (typed_B2 saved_A1)"
  have ps: "parcelles_st ?r = [parcelle_A1]"
    by (simp add: typed_B2_eq saved_A1_eval)
  have ne: "newErrors ?r = Map.empty"
    by (simp add: newErrors_rules rule_numeroDeLot_def rule_etatDeParcelle_def
        rule_nombreDeLogement_def ps) (simp add: typed_B2_eq parcelle_A1_def js_eval)
  have i: "image_st ?r = None"
    by (simp add: typed_B2_eq initial_form_def)
  have s: "form_setItem example_env = Inr ()" and o: "onSave example_env = None"
    by (simp_all add: example_env_def)
  have np: "newParcelle example_env ?r None = twin_B2"
    by (simp add: typed_B2_eq newParcelle_def twin_B2_def parcelle_A1_def initial_form_def
        example_env_def js_eval toString_def digits_of.simps digit_char_def)
  note eq = handleSave_saved_plain [OF ne i s o]
  show ?thesis
    unfolding saved_twins_def by (simp add: run_form_def eq np ps)
qed

lemma twins_same_time:
  "compare_createdAt calendar_env parcelle_A1 twin_B2 = Some 0"
  by (simp add: compare_createdAt_def calendar_env_def twin_B2_def parcelle_A1_def)

lemma listed_twins_eval:
  "parcelles_ix (index listed_twins) = [parcelle_A1, twin_B2]"
  "storage (world listed_twins) = Some [parcelle_A1, twin_B2]"
proof -
  have g: "ix_getItem calendar_env = Inr ()"
    by (simp add: calendar_env_def gallery_fails_env_def)
  have srt: "Array_sort (compare_createdAt calendar_env) [parcelle_A1, twin_B2] = [parcelle_A1, twin_B2]"
    by (simp add: Array_sort_def goes_after_def twins_same_time)
  note eq = loadParcelles_loaded [OF g saved_twins_eval]
  show "parcelles_ix (index listed_twins) = [parcelle_A1, twin_B2]"
    unfolding listed_twins_def by (simp add: run_index_def eq srt)
  show "storage (world listed_twins) = Some [parcelle_A1, twin_B2]"
    unfolding listed_twins_def by (simp add: run_index_def eq saved_twins_eval)
qed

lemma run_index_proj:
  "index (run_index m a) = fst (snd (m (index a, world a)))"
  "world (run_index m a) = snd (snd (m (index a, world a)))"
  by (simp_all add: run_index_def split: prod.split)

section \<open>The claims\<close>

text \<open>
  C1. When the trimmed lot number of the form equals the lot number of a record of the
  collection (strings are compared as they are, so the comparison is case-sensitive),
  \<open>validateForm\<close> reports an error for the lot number and \<open>handleSave\<close>, in both
  variants of the form, returns without inserting: the collection and the store are as
  before, only the errors are set. Consequently, in every state the application can
  reach, the lot numbers of the collection of the form, of the collection of the list
  screen and of the stored collection are pairwise distinct after trimming; there a
  candidate that equals an existing lot number after trimming both is rejected too.
\<close>

theorem existing_lot_number_is_rejected:
  "(trim (numeroDeLot_st r) \<in> set (map numeroDeLot (parcelles_st r)) \<longrightarrow>
      newErrors r NumeroDeLot =
        Some (if trim (numeroDeLot_st r) = [] then msg_lot_requis else msg_lot_existe)
      \<and> handleSave env (r, w) = (Inr (), (r\<lparr>errors_st := newErrors r\<rparr>, w))
      \<and> handleSave_fs env (r, w) = (Inr (), (r\<lparr>errors_st := newErrors r\<rparr>, w)))
   \<and> (reachable a \<longrightarrow>
        distinct (map (\<lambda>p. trim (numeroDeLot p)) (parcelles_st (form a)))
      \<and> distinct (map (\<lambda>p. trim (numeroDeLot p)) (parcelles_ix (index a)))
      \<and> (case storage (world a) of
            None \<Rightarrow> True
          | Some ps \<Rightarrow> distinct (map (\<lambda>p. trim (numeroDeLot p)) ps))
      \<and> (trim (numeroDeLot_st (form a))
             \<in> set (map (\<lambda>p. trim (numeroDeLot p)) (parcelles_st (form a))) \<longrightarrow>
           newErrors (form a) NumeroDeLot \<noteq> None))"
proof (intro conjI impI)
  assume ex: "trim (numeroDeLot_st r) \<in> set (map numeroDeLot (parcelles_st r))"
  show lot: "newErrors r NumeroDeLot =
        Some (if trim (numeroDeLot_st r) = [] then msg_lot_requis else msg_lot_existe)"
    using ex by (rule existing_lot_error)
  have ne: "newErrors r \<noteq> Map.empty"
    using lot by (auto simp: fun_eq_iff)
  show "handleSave env (r, w) = (Inr (), (r\<lparr>errors_st := newErrors r\<rparr>, w))"
    using ne by (rule handleSave_rejected)
  show "handleSave_fs env (r, w) = (Inr (), (r\<lparr>errors_st := newErrors r\<rparr>, w))"
    using ne by (rule handleSave_fs_rejected)
next
  assume "reachable a"
  then have inv: "app_inv a" by (rule reachable_app_inv)
  show "distinct (map (\<lambda>p. trim (numeroDeLot p)) (parcelles_st (form a)))"
    using inv by (intro wf_collection_trimmed_distinct) (simp add: app_inv_def form_inv_def)
  show "distinct (map (\<lambda>p. trim (numeroDeLot p)) (parcelles_ix (index a)))"
    using inv by (intro wf_collection_trimmed_distinct) (simp add: app_inv_def index_inv_def)
  show "case storage (world a) of
            None \<Rightarrow> True
          | Some ps \<Rightarrow> distinct (map (\<lambda>p. trim (numeroDeLot p)) ps)"
    using inv
    by (auto simp: app_inv_def form_inv_def store_inv_def wf_collection_trimmed_distinct
        split: option.split)
next
  assume "reachable a"
    and m: "trim (numeroDeLot_st (form a))
             \<in> set (map (\<lambda>p. trim (numeroDeLot p)) (parcelles_st (form a)))"
  then have inv: "app_inv a" by (intro reachable_app_inv)
  have "map (\<lambda>p. trim (numeroDeLot p)) (parcelles_st (form a)) =
        map numeroDeLot (parcelles_st (form a))"
    using inv by (auto simp: app_inv_def form_inv_def wf_collection_def list_all_iff normalized_def)
  then show "newErrors (form a) NumeroDeLot \<noteq> None"
    using existing_lot_error [of "form a"] m by simp
qed

text \<open>
  The scenario of the specification: after \<open>A1\<close> is saved the store has one record;
  saving \<open>A1\<close> again reports that the lot number exists and the store keeps its one
  record. The lot number \<open>a1\<close> gets no error: the comparison is case-sensitive.
\<close>

theorem existing_lot_number_is_rejected_witness:
  "trim (numeroDeLot_st (form (typed_A1 saved_A1)))
     \<in> set (map numeroDeLot (parcelles_st (form (typed_A1 saved_A1))))
   \<and> reachable saved_A1_twice
   \<and> parcelles_st (form saved_A1) = [parcelle_A1]
   \<and> storage (world saved_A1) = Some [parcelle_A1]
   \<and> errors_st (form saved_A1_twice) NumeroDeLot = Some msg_lot_existe
   \<and> parcelles_st (form saved_A1_twice) = [parcelle_A1]
   \<and> storage (world saved_A1_twice) = Some [parcelle_A1]
   \<and> distinct (map (\<lambda>p. trim (numeroDeLot p)) (parcelles_st (form saved_A1_twice)))
   \<and> newErrors ((form (typed_A1 saved_A1))\<lparr>numeroDeLot_st := str ''a1''\<rparr>) NumeroDeLot = None"
proof -
  let ?r = "form (typed_A1 saved_A1)"
  have ps: "parcelles_st ?r = [parcelle_A1]"
    by (simp add: typed_A1_eq saved_A1_eval)
  have lot: "trim (numeroDeLot_st ?r) = str ''A1''"
    by (simp add: typed_A1_eq js_eval)
  have ex: "trim (numeroDeLot_st ?r) \<in> set (map numeroDeLot (parcelles_st ?r))"
    by (simp add: ps lot parcelle_A1_def)
  have ne: "trim (numeroDeLot_st ?r) \<noteq> []"
    by (simp add: lot str_def)
  have w: "world (typed_A1 saved_A1) = world saved_A1"
    by (simp add: typed_A1_eq)
  note inst = existing_lot_number_is_rejected [of ?r example_env "world (typed_A1 saved_A1)" saved_A1_twice]
  have run: "handleSave example_env (?r, world (typed_A1 saved_A1)) =
        (Inr (), (?r\<lparr>errors_st := newErrors ?r\<rparr>, world (typed_A1 saved_A1)))"
    and err: "newErrors ?r NumeroDeLot = Some msg_lot_existe"
    using inst ex ne by simp_all
  have twice: "saved_A1_twice =
        (typed_A1 saved_A1)\<lparr>form := ?r\<lparr>errors_st := newErrors ?r\<rparr>\<rparr>"
    unfolding saved_A1_twice_def by (simp add: run_form_def run)
  have d: "distinct (map (\<lambda>p. trim (numeroDeLot p)) (parcelles_st (form saved_A1_twice)))"
    using inst reachable_saved_A1_twice by simp
  have cs: "newErrors (?r\<lparr>numeroDeLot_st := str ''a1''\<rparr>) NumeroDeLot = None"
    by (simp add: newErrors_lot rule_numeroDeLot_def ps parcelle_A1_def js_eval)
  show ?thesis
    using ex reachable_saved_A1_twice saved_A1_eval d cs
    by (simp add: twice err ps w)
qed

text \<open>
  C2. On a form whose lot number and state are valid and whose lot number is not in the
  collection, the unit counts \<open>0\<close>, \<open>-3\<close> and \<open>abc\<close> give the error "must be a positive
  number", which differs from the error of the empty field; a unit count that is empty
  after trimming gives the error of the empty field; \<open>5\<close> gives no error. In general
  the form is valid exactly when the trimmed unit count is not empty, parses as a number
  (\<open>Number\<close> of it is not \<open>NaN\<close>) and that number is greater than \<open>0\<close>.
\<close>

theorem nombreDeLogement_must_be_positive:
  assumes "trim (numeroDeLot_st r) \<noteq> []"
    and "trim (numeroDeLot_st r) \<notin> set (map numeroDeLot (parcelles_st r))"
    and "trim (etatDeParcelle_st r) \<noteq> []"
  shows "newErrors (r\<lparr>nombreDeLogement_st := str ''0''\<rparr>) = [NombreDeLogement \<mapsto> msg_nombre_positif]
    \<and> newErrors (r\<lparr>nombreDeLogement_st := str ''-3''\<rparr>) = [NombreDeLogement \<mapsto> msg_nombre_positif]
    \<and> newErrors (r\<lparr>nombreDeLogement_st := str ''abc''\<rparr>) = [NombreDeLogement \<mapsto> msg_nombre_positif]
    \<and> msg_nombre_positif \<noteq> msg_nombre_requis
    \<and> (\<forall>n. trim n = [] \<longrightarrow>
           newErrors (r\<lparr>nombreDeLogement_st := n\<rparr>) = [NombreDeLogement \<mapsto> msg_nombre_requis])
    \<and> newErrors (r\<lparr>nombreDeLogement_st := str ''5''\<rparr>) = Map.empty
    \<and> (\<forall>n. newErrors (r\<lparr>nombreDeLogement_st := n\<rparr>) =
           (if trim n = [] then [NombreDeLogement \<mapsto> msg_nombre_requis]
            else if isNaN (Number (trim n)) \<or> le_zero (Number (trim n))
            then [NombreDeLogement \<mapsto> msg_nombre_positif]
            else Map.empty))
    \<and> (\<forall>n w. fst (validateForm (r\<lparr>nombreDeLogement_st := n\<rparr>, w)) =
           Inr (trim n \<noteq> [] \<and> \<not> isNaN (Number (trim n)) \<and> \<not> le_zero (Number (trim n))))"
proof -
  have eq: "newErrors (r\<lparr>nombreDeLogement_st := n\<rparr>) = rule_nombreDeLogement n" for n
    using assms by (rule newErrors_other_fields_valid)
  have l0: "newErrors (r\<lparr>nombreDeLogement_st := str ''0''\<rparr>) = [NombreDeLogement \<mapsto> msg_nombre_positif]"
    by (simp only: eq nombre_literals)
  have l3: "newErrors (r\<lparr>nombreDeLogement_st := str ''-3''\<rparr>) = [NombreDeLogement \<mapsto> msg_nombre_positif]"
    by (simp only: eq nombre_literals)
  have la: "newErrors (r\<lparr>nombreDeLogement_st := str ''abc''\<rparr>) = [NombreDeLogement \<mapsto> msg_nombre_positif]"
    by (simp only: eq nombre_literals)
  have l5: "newErrors (r\<lparr>nombreDeLogement_st := str ''5''\<rparr>) = Map.empty"
    by (simp only: eq nombre_literals)
  have general: "\<forall>n. newErrors (r\<lparr>nombreDeLogement_st := n\<rparr>) =
           (if trim n = [] then [NombreDeLogement \<mapsto> msg_nombre_requis]
            else if isNaN (Number (trim n)) \<or> le_zero (Number (trim n))
            then [NombreDeLogement \<mapsto> msg_nombre_positif]
            else Map.empty)"
    by (simp add: eq rule_nombreDeLogement_def is_positive_number_def)
  have blank: "\<forall>n. trim n = [] \<longrightarrow>
           newErrors (r\<lparr>nombreDeLogement_st := n\<rparr>) = [NombreDeLogement \<mapsto> msg_nombre_requis]"
    by (simp add: general)
  have returned: "\<forall>n w. fst (validateForm (r\<lparr>nombreDeLogement_st := n\<rparr>, w)) =
           Inr (trim n \<noteq> [] \<and> \<not> isNaN (Number (trim n)) \<and> \<not> le_zero (Number (trim n)))"
    by (simp add: validateForm_eq general)
  show ?thesis
    by (intro conjI) (fact l0 l3 la nombre_messages_differ blank l5 general returned)+
qed

text \<open>The hypotheses hold of the form with lot number \<open>A1\<close> and state \<open>Bon\<close>.\<close>

theorem nombreDeLogement_must_be_positive_witness:
  "trim (numeroDeLot_st example_form) \<noteq> []
   \<and> trim (numeroDeLot_st example_form) \<notin> set (map numeroDeLot (parcelles_st example_form))
   \<and> trim (etatDeParcelle_st example_form) \<noteq> []
   \<and> newErrors (example_form\<lparr>nombreDeLogement_st := str ''0''\<rparr>) = [NombreDeLogement \<mapsto> msg_nombre_positif]
   \<and> newErrors (example_form\<lparr>nombreDeLogement_st := str ''-3''\<rparr>) = [NombreDeLogement \<mapsto> msg_nombre_positif]
   \<and> newErrors (example_form\<lparr>nombreDeLogement_st := str ''abc''\<rparr>) = [NombreDeLogement \<mapsto> msg_nombre_positif]
   \<and> newErrors (example_form\<lparr>nombreDeLogement_st := str '' ''\<rparr>) = [NombreDeLogement \<mapsto> msg_nombre_requis]
   \<and> newErrors (example_form\<lparr>nombreDeLogement_st := str ''5''\<rparr>) = Map.empty"
proof -
  have a: "trim (numeroDeLot_st example_form) \<noteq> []"
    by (simp add: example_form_def initial_form_def js_eval)
  have b: "trim (numeroDeLot_st example_form) \<notin> set (map numeroDeLot (parcelles_st example_form))"
    by (simp add: example_form_def initial_form_def)
  have c: "trim (etatDeParcelle_st example_form) \<noteq> []"
    by (simp add: example_form_def initial_form_def js_eval)
  have d: "trim (str '' '') = []"
    by (simp add: js_eval)
  show ?thesis
    using nombreDeLogement_must_be_positive [OF a b c] a b c d by simp
qed

text \<open>
  C3. \<open>validateForm\<close> runs the rule of each of the three fields and reports every
  violation together: its error object is the union of the three checks taken one by
  one, so the keys it reports are the keys the three checks report. It never reports an
  error for \<open>acheve\<close> or \<open>enCours\<close>, whose values do not change the result, and it
  returns \<open>true\<close> exactly when no rule reported an error.
\<close>

theorem validateForm_reports_every_violation:
  "newErrors r =
     rule_numeroDeLot (numeroDeLot_st r) (parcelles_st r)
     ++ rule_etatDeParcelle (etatDeParcelle_st r)
     ++ rule_nombreDeLogement (nombreDeLogement_st r)
   \<and> dom (newErrors r) =
     dom (rule_numeroDeLot (numeroDeLot_st r) (parcelles_st r))
     \<union> dom (rule_etatDeParcelle (etatDeParcelle_st r))
     \<union> dom (rule_nombreDeLogement (nombreDeLogement_st r))
   \<and> newErrors r Acheve = None \<and> newErrors r EnCours = None
   \<and> newErrors (r\<lparr>acheve_st := a, enCours_st := b\<rparr>) = newErrors r
   \<and> validateForm (r, w) = (Inr (newErrors r = Map.empty), (r\<lparr>errors_st := newErrors r\<rparr>, w))"
proof -
  have "newErrors r Acheve = None" "newErrors r EnCours = None"
    using dom_newErrors_subset [of r] by auto
  moreover have "newErrors (r\<lparr>acheve_st := a, enCours_st := b\<rparr>) = newErrors r"
    by (simp add: newErrors_def Let_def)
  ultimately show ?thesis
    using newErrors_rules [of r] dom_newErrors [of r] validateForm_eq [of r w] by simp
qed

text \<open>
  On a form with a blank lot number, an empty state and the unit count \<open>abc\<close>, the three
  errors are reported together.
\<close>

theorem validateForm_reports_every_violation_witness:
  "newErrors all_wrong_form =
     [NumeroDeLot \<mapsto> msg_lot_requis, EtatDeParcelle \<mapsto> msg_etat_requis,
      NombreDeLogement \<mapsto> msg_nombre_positif]
   \<and> dom (newErrors all_wrong_form) = {NumeroDeLot, EtatDeParcelle, NombreDeLogement}"
proof -
  have "rule_numeroDeLot (numeroDeLot_st all_wrong_form) (parcelles_st all_wrong_form)
        = [NumeroDeLot \<mapsto> msg_lot_requis]"
    by (simp add: all_wrong_form_def initial_form_def rule_numeroDeLot_def js_eval)
  moreover have "rule_etatDeParcelle (etatDeParcelle_st all_wrong_form)
        = [EtatDeParcelle \<mapsto> msg_etat_requis]"
    by (simp add: all_wrong_form_def initial_form_def rule_etatDeParcelle_def js_eval)
  moreover have "rule_nombreDeLogement (nombreDeLogement_st all_wrong_form)
        = [NombreDeLogement \<mapsto> msg_nombre_positif]"
    by (simp add: all_wrong_form_def initial_form_def rule_nombreDeLogement_def js_eval)
  ultimately have "newErrors all_wrong_form =
      [NumeroDeLot \<mapsto> msg_lot_requis] ++ [EtatDeParcelle \<mapsto> msg_etat_requis]
      ++ [NombreDeLogement \<mapsto> msg_nombre_positif]"
    using validateForm_reports_every_violation [of all_wrong_form] by simp
  then have "newErrors all_wrong_form =
     [NumeroDeLot \<mapsto> msg_lot_requis, EtatDeParcelle \<mapsto> msg_etat_requis,
      NombreDeLogement \<mapsto> msg_nombre_positif]"
    by simp
  then show ?thesis by auto
qed

text \<open>
  C4. When the read of the store succeeds, \<open>loadParcelles\<close> of the list screen shows the
  stored records sorted by the comparator, a permutation of them, and leaves the store as
  it is. When every stored record has a valid creation date (the form stores
  \<open>new Date().toISOString()\<close>), the sorted list is newest first. In particular three records stored in the order of their creation times
  \<open>t1 < t2 < t3\<close> are shown in the order \<open>t3, t2, t1\<close> while the store keeps the order
  \<open>t1, t2, t3\<close>.
\<close>

theorem load_shows_newest_first:
  "(ix_getItem env = Inr () \<and> storage w = Some ps \<longrightarrow>
      loadParcelles env (x, w) =
        (Inr (),
         (x\<lparr>isLoading_ix := False, parcelles_ix := Array_sort (compare_createdAt env) ps\<rparr>, w))
    \<and> mset (Array_sort (compare_createdAt env) ps) = mset ps)
   \<and> (valid_dates env ps \<longrightarrow> newest_first env (Array_sort (compare_createdAt env) ps))
   \<and> (ix_getItem env = Inr () \<and> storage w = Some [a, b, c] \<and>
      getTime env (createdAt a) = Some t1 \<and> getTime env (createdAt b) = Some t2 \<and>
      getTime env (createdAt c) = Some t3 \<and> t1 < t2 \<and> t2 < t3 \<longrightarrow>
      parcelles_ix (fst (snd (loadParcelles env (x, w)))) = [c, b, a]
    \<and> storage (snd (snd (loadParcelles env (x, w)))) = Some [a, b, c])"
proof (intro conjI impI)
  assume h: "ix_getItem env = Inr () \<and> storage w = Some ps"
  show "loadParcelles env (x, w) =
        (Inr (),
         (x\<lparr>isLoading_ix := False, parcelles_ix := Array_sort (compare_createdAt env) ps\<rparr>, w))"
    using h by (intro loadParcelles_loaded) simp_all
  show "mset (Array_sort (compare_createdAt env) ps) = mset ps"
    by (rule mset_Array_sort)
next
  assume "valid_dates env ps"
  then show "newest_first env (Array_sort (compare_createdAt env) ps)"
    by (rule newest_first_Array_sort)
next
  assume h: "ix_getItem env = Inr () \<and> storage w = Some [a, b, c] \<and>
      getTime env (createdAt a) = Some t1 \<and> getTime env (createdAt b) = Some t2 \<and>
      getTime env (createdAt c) = Some t3 \<and> t1 < t2 \<and> t2 < t3"
  then have l: "loadParcelles env (x, w) =
     (Inr (),
      (x\<lparr>isLoading_ix := False, parcelles_ix := Array_sort (compare_createdAt env) [a, b, c]\<rparr>, w))"
    by (intro loadParcelles_loaded) simp_all
  have s: "Array_sort (compare_createdAt env) [a, b, c] = [c, b, a]"
    using h by (intro Array_sort_three [of env a t1 b t2 c t3]) simp_all
  show "parcelles_ix (fst (snd (loadParcelles env (x, w)))) = [c, b, a]"
    by (simp add: l s)
  show "storage (snd (snd (loadParcelles env (x, w)))) = Some [a, b, c]"
    using h by (simp add: l)
qed

text \<open>Three records created on the first, second and third of May.\<close>

theorem load_shows_newest_first_witness:
  "ix_getItem calendar_env = Inr ()
   \<and> valid_dates calendar_env [day1, day2, day3]
   \<and> getTime calendar_env (createdAt day1) = Some 1714557600000
   \<and> getTime calendar_env (createdAt day2) = Some 1714644000000
   \<and> getTime calendar_env (createdAt day3) = Some 1714730400000
   \<and> parcelles_ix (fst (snd (loadParcelles calendar_env
        (initial_index, \<lparr>storage = Some [day1, day2, day3], trace = []\<rparr>)))) = [day3, day2, day1]
   \<and> storage (snd (snd (loadParcelles calendar_env
        (initial_index, \<lparr>storage = Some [day1, day2, day3], trace = []\<rparr>)))) = Some [day1, day2, day3]
   \<and> newest_first calendar_env [day3, day2, day1]"
proof -
  let ?w = "\<lparr>storage = Some [day1, day2, day3], trace = []\<rparr>"
  have g: "ix_getItem calendar_env = Inr ()"
    by (simp add: calendar_env_def gallery_fails_env_def)
  have t: "getTime calendar_env (createdAt day1) = Some 1714557600000"
    "getTime calendar_env (createdAt day2) = Some 1714644000000"
    "getTime calendar_env (createdAt day3) = Some 1714730400000"
    by (simp_all add: calendar_env_def day1_def day2_def day3_def parcelle_B2_def str_def)
  have v: "valid_dates calendar_env [day1, day2, day3]"
    by (simp add: valid_dates_def t)
  note inst = load_shows_newest_first [of calendar_env ?w "[day1, day2, day3]" initial_index day1 day2 day3
      1714557600000 1714644000000 1714730400000]
  have st: "storage ?w = Some [day1, day2, day3]"
    by simp
  have lt: "(1714557600000 :: int) < 1714644000000" "(1714644000000 :: int) < 1714730400000"
    by simp_all
  have r: "parcelles_ix (fst (snd (loadParcelles calendar_env (initial_index, ?w)))) = [day3, day2, day1]"
    "storage (snd (snd (loadParcelles calendar_env (initial_index, ?w)))) = Some [day1, day2, day3]"
    using inst g t st lt by blast+
  have eq: "loadParcelles calendar_env (initial_index, ?w) =
        (Inr (),
         (initial_index\<lparr>isLoading_ix := False,
            parcelles_ix := Array_sort (compare_createdAt calendar_env) [day1, day2, day3]\<rparr>, ?w))"
    using inst g st by blast
  have n: "newest_first calendar_env (Array_sort (compare_createdAt calendar_env) [day1, day2, day3])"
    using inst v by blast
  have "Array_sort (compare_createdAt calendar_env) [day1, day2, day3] = [day3, day2, day1]"
    using r(1) unfolding eq by simp
  then have "newest_first calendar_env [day3, day2, day1]"
    using n by simp
  then show ?thesis
    using g v t r by simp
qed

text \<open>
  C5. As stated for every collection the claim fails: \<open>deleteParcelle\<close> keeps the records
  whose id differs from the one given, so it removes every record with that id, and the
  id of a record is the reading of the clock at its creation, which two records can
  share. Amended: when the user confirms and the store accepts the write,
  \<open>deleteParcelle\<close> leaves in memory and in the store the collection filtered by
  \<open>id !== parcelleId\<close>. The records kept are exactly those with another id, in their
  order, and the length decreases by the number of records with the id. If no record has
  the id, the filtered collection is the collection. If exactly one record has the id,
  the length decreases by exactly one; if the ids of the collection are unique and the
  record \<open>p\<close> has the id, the filtered collection is the collection with \<open>p\<close> removed.
\<close>

theorem delete_removes_every_record_with_the_id:
  "(confirmed env \<and> ix_setItem env = Inr () \<longrightarrow>
      parcelles_ix (fst (snd (deleteParcelle env parcelleId img (x, w)))) =
        filter (\<lambda>q. id_p q \<noteq> parcelleId) (parcelles_ix x)
    \<and> storage (snd (snd (deleteParcelle env parcelleId img (x, w)))) =
        Some (filter (\<lambda>q. id_p q \<noteq> parcelleId) (parcelles_ix x)))
   \<and> (parcelleId \<notin> set (map id_p ps) \<longrightarrow> filter (\<lambda>q. id_p q \<noteq> parcelleId) ps = ps)
   \<and> (distinct (map id_p ps) \<and> p \<in> set ps \<and> id_p p = parcelleId \<longrightarrow>
        filter (\<lambda>q. id_p q \<noteq> parcelleId) ps = remove1 p ps
      \<and> length (filter (\<lambda>q. id_p q \<noteq> parcelleId) ps) + 1 = length ps
      \<and> mset ps = add_mset p (mset (filter (\<lambda>q. id_p q \<noteq> parcelleId) ps)))
   \<and> (\<forall>q. q \<in> set (filter (\<lambda>q. id_p q \<noteq> parcelleId) ps) \<longleftrightarrow> q \<in> set ps \<and> id_p q \<noteq> parcelleId)
   \<and> length (filter (\<lambda>q. id_p q \<noteq> parcelleId) ps)
       + length (filter (\<lambda>q. id_p q = parcelleId) ps) = length ps
   \<and> (length (filter (\<lambda>q. id_p q = parcelleId) ps) = 1 \<longrightarrow>
        length (filter (\<lambda>q. id_p q \<noteq> parcelleId) ps) + 1 = length ps)"
proof (intro conjI impI allI)
  assume "confirmed env \<and> ix_setItem env = Inr ()"
  then have d: "wp (deleteParcelle env parcelleId img)
      (\<lambda>res s'. res = Inr ()
         \<and> parcelles_ix (fst s') = filter (\<lambda>p. id_p p \<noteq> parcelleId) (parcelles_ix x)
         \<and> storage (snd s') = Some (filter (\<lambda>p. id_p p \<noteq> parcelleId) (parcelles_ix x))
         \<and> isDeleting_ix (fst s') = None
         \<and> last (trace (snd s')) = Alert msg_succes msg_supprimee)
      (x, w)"
    by (intro deleteParcelle_confirmed) simp_all
  show "parcelles_ix (fst (snd (deleteParcelle env parcelleId img (x, w)))) =
        filter (\<lambda>q. id_p q \<noteq> parcelleId) (parcelles_ix x)"
    using d by (simp add: wp_alt)
  show "storage (snd (snd (deleteParcelle env parcelleId img (x, w)))) =
        Some (filter (\<lambda>q. id_p q \<noteq> parcelleId) (parcelles_ix x))"
    using d by (simp add: wp_alt)
next
  assume "parcelleId \<notin> set (map id_p ps)"
  then show "filter (\<lambda>q. id_p q \<noteq> parcelleId) ps = ps"
    by (rule filter_other_ids_absent)
next
  assume a: "distinct (map id_p ps) \<and> p \<in> set ps \<and> id_p p = parcelleId"
  then show r: "filter (\<lambda>q. id_p q \<noteq> parcelleId) ps = remove1 p ps"
    using filter_other_ids_remove1 [of ps p] by auto
  show "length (filter (\<lambda>q. id_p q \<noteq> parcelleId) ps) + 1 = length ps"
  proof -
    have "0 < length ps"
      using a by (cases ps) auto
    then show ?thesis
      using a unfolding r by (simp add: length_remove1)
  qed
  show "mset ps = add_mset p (mset (filter (\<lambda>q. id_p q \<noteq> parcelleId) ps))"
    using a unfolding r by simp
next
  fix q
  show "q \<in> set (filter (\<lambda>q. id_p q \<noteq> parcelleId) ps) \<longleftrightarrow> q \<in> set ps \<and> id_p q \<noteq> parcelleId"
    by simp
next
  show "length (filter (\<lambda>q. id_p q \<noteq> parcelleId) ps)
       + length (filter (\<lambda>q. id_p q = parcelleId) ps) = length ps"
    using sum_length_filter_compl [of "\<lambda>q. id_p q = parcelleId" ps] by simp
next
  assume "length (filter (\<lambda>q. id_p q = parcelleId) ps) = 1"
  then show "length (filter (\<lambda>q. id_p q \<noteq> parcelleId) ps) + 1 = length ps"
    using sum_length_filter_compl [of "\<lambda>q. id_p q = parcelleId" ps] by simp
qed

text \<open>
  From a list of two records, deleting the id \<open>3\<close> leaves the other record, and deleting
  the id \<open>9\<close>, which no record has, leaves both.
\<close>

theorem delete_removes_every_record_with_the_id_witness:
  "confirmed gallery_fails_env \<and> ix_setItem gallery_fails_env = Inr ()
   \<and> distinct (map id_p (parcelles_ix index_with_asset))
   \<and> parcelle_with_asset \<in> set (parcelles_ix index_with_asset)
   \<and> id_p parcelle_with_asset = str ''3''
   \<and> str ''9'' \<notin> set (map id_p (parcelles_ix index_with_asset))
   \<and> parcelles_ix (fst (snd (deleteParcelle gallery_fails_env (str ''3'') None
            (index_with_asset, stored_with_asset)))) = [parcelle_B2]
   \<and> storage (snd (snd (deleteParcelle gallery_fails_env (str ''3'') None
            (index_with_asset, stored_with_asset)))) = Some [parcelle_B2]
   \<and> length [parcelle_B2] + 1 = length (parcelles_ix index_with_asset)
   \<and> parcelles_ix (fst (snd (deleteParcelle gallery_fails_env (str ''9'') None
            (index_with_asset, stored_with_asset)))) = parcelles_ix index_with_asset"
proof -
  let ?ps = "parcelles_ix index_with_asset"
  have e: "confirmed gallery_fails_env" "ix_setItem gallery_fails_env = Inr ()"
    by (simp_all add: gallery_fails_env_def)
  have ps: "?ps = [parcelle_B2, parcelle_with_asset]"
    by (simp add: index_with_asset_def)
  have ids: "id_p parcelle_B2 = str ''4''" "id_p parcelle_with_asset = str ''3''"
    by (simp_all add: parcelle_B2_def parcelle_with_asset_def parcelle_A1_def)
  have neq: "str ''4'' \<noteq> str ''3''" "str ''9'' \<noteq> str ''4''" "str ''9'' \<noteq> str ''3''"
    by (simp_all add: str_def)
  have d: "distinct (map id_p ?ps)"
    by (simp add: ps ids neq)
  have m: "parcelle_with_asset \<in> set ?ps"
    by (simp add: ps)
  have a: "str ''9'' \<notin> set (map id_p ?ps)"
    using neq by (simp add: ps ids)
  have f3: "filter (\<lambda>q. id_p q \<noteq> str ''3'') ?ps = [parcelle_B2]"
    using neq by (simp add: ps ids)
  note i3 = delete_removes_every_record_with_the_id [of gallery_fails_env "str ''3''" None index_with_asset stored_with_asset ?ps
      parcelle_with_asset]
  note i9 = delete_removes_every_record_with_the_id [of gallery_fails_env "str ''9''" None index_with_asset stored_with_asset ?ps
      parcelle_with_asset]
  have r3: "parcelles_ix (fst (snd (deleteParcelle gallery_fails_env (str ''3'') None
            (index_with_asset, stored_with_asset)))) = [parcelle_B2]"
    "storage (snd (snd (deleteParcelle gallery_fails_env (str ''3'') None
            (index_with_asset, stored_with_asset)))) = Some [parcelle_B2]"
    using i3 e by (simp_all add: f3)
  have l3: "length [parcelle_B2] + 1 = length ?ps"
    by (simp add: ps)
  have r9: "parcelles_ix (fst (snd (deleteParcelle gallery_fails_env (str ''9'') None
            (index_with_asset, stored_with_asset)))) = ?ps"
    using i9 e a by simp
  show ?thesis
    using e d m ids(2) a r3 l3 r9 by simp
qed

text \<open>
  The claim as stated, refuted: two records saved while the clock reads \<open>3\<close> both have
  the id \<open>3\<close>; the list screen shows the two, and deleting the id \<open>3\<close> removes both, so
  the collection is shorter by two.
\<close>

theorem delete_with_a_shared_id_removes_two_counterexample:
  "reachable listed_twins
   \<and> parcelles_ix (index listed_twins) = [parcelle_A1, twin_B2]
   \<and> id_p parcelle_A1 = str ''3'' \<and> id_p twin_B2 = str ''3''
   \<and> parcelle_A1 \<noteq> twin_B2
   \<and> confirmed calendar_env \<and> ix_setItem calendar_env = Inr ()
   \<and> parcelles_ix (index deleted_twins) = []
   \<and> storage (world deleted_twins) = Some []
   \<and> length (parcelles_ix (index deleted_twins)) + 1 \<noteq> length (parcelles_ix (index listed_twins))"
proof -
  have e: "confirmed calendar_env" "ix_setItem calendar_env = Inr ()"
    by (simp_all add: calendar_env_def gallery_fails_env_def)
  have ids: "id_p parcelle_A1 = str ''3''" "id_p twin_B2 = str ''3''"
    by (simp_all add: twin_B2_def parcelle_A1_def)
  have ne: "parcelle_A1 \<noteq> twin_B2"
    by (simp add: twin_B2_def parcelle_A1_def str_def)
  have f: "filter (\<lambda>p. id_p p \<noteq> str ''3'') (parcelles_ix (index listed_twins)) = []"
    by (simp add: listed_twins_eval ids)
  have d: "parcelles_ix (index deleted_twins) = [] \<and> storage (world deleted_twins) = Some []"
    unfolding deleted_twins_def run_index_proj
    using deleteParcelle_confirmed [OF e, of "str ''3''" None "index listed_twins" "world listed_twins"]
    by (simp add: wp_alt f)
  show ?thesis
    using reachable_listed_twins listed_twins_eval(1) ids ne e d by simp
qed

text \<open>
  C6. With an empty collection \<open>exportToExcel\<close> shows the notice "Aucune donnee a
  exporter" and returns: the trace gains this one alert, so no workbook is handed to
  \<open>XLSX.write\<close>, no file is written and nothing is shared; the state of the screen and
  the store are as before.
\<close>

theorem empty_export_is_rejected:
  "parcelles_ix x = [] \<Longrightarrow>
     exportToExcel env (x, w) =
       (Inr (), (x, w\<lparr>trace := trace w @ [Alert (str ''Attention'') msg_aucune_donnee]\<rparr>))"
  apply (rule iffD1 [OF wp_eq])
  apply (simp add: exportToExcel_def wp_rules split del: if_split)
  done

theorem empty_export_is_rejected_witness:
  "parcelles_ix initial_index = []
   \<and> exportToExcel gallery_fails_env (initial_index, \<lparr>storage = None, trace = []\<rparr>) =
       (Inr (), (initial_index,
                 \<lparr>storage = None, trace = [Alert (str ''Attention'') msg_aucune_donnee]\<rparr>))"
proof -
  have e: "parcelles_ix initial_index = []"
    by (simp add: initial_index_def)
  show ?thesis
    using empty_export_is_rejected [OF e, of gallery_fails_env "\<lparr>storage = None, trace = []\<rparr>"] e by simp
qed

text \<open>
  C7. For a collection of \<open>N > 0\<close> records, the workbook that \<open>exportToExcel\<close> builds
  has one sheet, whose rows are the header row followed by one row for each record, in
  the order of the collection: \<open>N + 1\<close> rows. The header holds the eleven column names
  in their fixed order and every row has eleven cells; the row of the record at position
  \<open>i\<close> (from \<open>0\<close>) is the row \<open>i + 1\<close> of the sheet and starts with the number \<open>i + 1\<close>.
  This workbook is what \<open>exportToExcel\<close> hands to \<open>XLSX.write\<close>, as the first thing it
  does to the outside world.
\<close>

theorem export_has_a_row_for_each_record:
  "parcelles_ix x \<noteq> [] \<longrightarrow>
     sheets (export_workbook env (parcelles_ix x)) =
       [(str ''Liste des Parcelles'',
         \<lparr>rows = export_rows env (parcelles_ix x), cols = colWidths\<rparr>)]
   \<and> length (export_rows env (parcelles_ix x)) = length (parcelles_ix x) + 1
   \<and> hd (export_rows env (parcelles_ix x)) = map (\<lambda>k. Some (StrCell k)) export_header
   \<and> length export_header = 11
   \<and> list_all (\<lambda>row. length row = 11) (export_rows env (parcelles_ix x))
   \<and> (\<forall>i. i < length (parcelles_ix x) \<longrightarrow>
          export_rows env (parcelles_ix x) ! (i + 1) = data_row env (parcelles_ix x ! i) i
        \<and> hd (data_row env (parcelles_ix x ! i) i) = Some (NumCell (i + 1)))
   \<and> (\<forall>out. XLSX_write env (export_workbook env (parcelles_ix x)) = Inr out \<longrightarrow>
          take (length (trace w) + 1) (trace (snd (snd (exportToExcel env (x, w))))) =
            trace w @ [XlsxWrite (export_workbook env (parcelles_ix x))])"
proof (intro impI conjI allI)
  assume ne: "parcelles_ix x \<noteq> []"
  show "sheets (export_workbook env (parcelles_ix x)) =
       [(str ''Liste des Parcelles'',
         \<lparr>rows = export_rows env (parcelles_ix x), cols = colWidths\<rparr>)]"
    using ne by (rule sheets_export_workbook)
  show "length (export_rows env (parcelles_ix x)) = length (parcelles_ix x) + 1"
    by (simp add: export_rows_def)
  show "hd (export_rows env (parcelles_ix x)) = map (\<lambda>k. Some (StrCell k)) export_header"
    by (simp add: export_rows_def)
  show "length export_header = 11"
    by (rule length_export_header)
  show "list_all (\<lambda>row. length row = 11) (export_rows env (parcelles_ix x))"
    by (rule export_rows_widths)
next
  fix i
  assume "i < length (parcelles_ix x)"
  then show "export_rows env (parcelles_ix x) ! (i + 1) = data_row env (parcelles_ix x ! i) i"
    by (rule export_rows_nth)
  show "hd (data_row env (parcelles_ix x ! i) i) = Some (NumCell (i + 1))"
    by (simp add: data_row_def)
next
  fix out
  assume "parcelles_ix x \<noteq> []"
    and "XLSX_write env (export_workbook env (parcelles_ix x)) = Inr out"
  then show "take (length (trace w) + 1) (trace (snd (snd (exportToExcel env (x, w))))) =
            trace w @ [XlsxWrite (export_workbook env (parcelles_ix x))]"
    using exportToExcel_hands_workbook [of x env out w] by (simp add: wp_alt)
qed

text \<open>A list of two records gives three rows; the second record is the row with index \<open>2\<close>.\<close>

theorem export_has_a_row_for_each_record_witness:
  "parcelles_ix index_with_asset \<noteq> []
   \<and> length (parcelles_ix index_with_asset) = 2
   \<and> length (export_rows gallery_fails_env (parcelles_ix index_with_asset)) = 3
   \<and> export_rows gallery_fails_env (parcelles_ix index_with_asset) ! 2 =
       [Some (NumCell 2), Some (StrCell (str ''A1'')), Some (StrCell (str ''Bon'')),
        Some (StrCell (str ''10'')), Some (StrCell []), Some (StrCell []),
        Some (StrCell (str ''Parcelle_A1_2.jpg'')), Some (StrCell (str ''Oui'')),
        Some (StrCell (str ''Oui'')), Some (StrCell (str ''2024-05-01T10:00:00.000Z'')),
        Some (StrCell (str ''3''))]
   \<and> XLSX_write gallery_fails_env (export_workbook gallery_fails_env (parcelles_ix index_with_asset))
       = Inr []
   \<and> take 1 (trace (snd (snd (exportToExcel gallery_fails_env (index_with_asset, stored_with_asset)))))
       = [XlsxWrite (export_workbook gallery_fails_env (parcelles_ix index_with_asset))]"
proof -
  let ?ps = "parcelles_ix index_with_asset"
  have ps: "?ps = [parcelle_B2, parcelle_with_asset]"
    by (simp add: index_with_asset_def)
  have ne: "?ps \<noteq> []" and len: "length ?ps = 2" and second: "?ps ! 1 = parcelle_with_asset"
    by (simp_all add: ps)
  have row: "data_row gallery_fails_env parcelle_with_asset 1 =
       [Some (NumCell 2), Some (StrCell (str ''A1'')), Some (StrCell (str ''Bon'')),
        Some (StrCell (str ''10'')), Some (StrCell []), Some (StrCell []),
        Some (StrCell (str ''Parcelle_A1_2.jpg'')), Some (StrCell (str ''Oui'')),
        Some (StrCell (str ''Oui'')), Some (StrCell (str ''2024-05-01T10:00:00.000Z'')),
        Some (StrCell (str ''3''))]"
    by (simp add: data_row_def parcelle_with_asset_def asset_image_def photo_A1_def
        parcelle_A1_def gallery_fails_env_def image_assetId_def str_def)
  have xw: "XLSX_write gallery_fails_env (export_workbook gallery_fails_env ?ps) = Inr []"
    by (simp add: gallery_fails_env_def)
  have tr: "trace stored_with_asset = []"
    by (simp add: stored_with_asset_def)
  note inst = export_has_a_row_for_each_record [of index_with_asset gallery_fails_env stored_with_asset]
  have "export_rows gallery_fails_env ?ps ! (1 + 1) = data_row gallery_fails_env (?ps ! 1) 1"
    using inst ne len by simp
  then have r2: "export_rows gallery_fails_env ?ps ! 2 = data_row gallery_fails_env parcelle_with_asset 1"
    using second by (simp add: numeral_2_eq_2)
  have l3: "length (export_rows gallery_fails_env ?ps) = 3"
    using inst ne len by simp
  have t1: "take 1 (trace (snd (snd (exportToExcel gallery_fails_env (index_with_asset, stored_with_asset)))))
       = [XlsxWrite (export_workbook gallery_fails_env ?ps)]"
    using inst ne xw by (simp add: tr)
  have r: "export_rows gallery_fails_env ?ps ! 2 =
       [Some (NumCell 2), Some (StrCell (str ''A1'')), Some (StrCell (str ''Bon'')),
        Some (StrCell (str ''10'')), Some (StrCell []), Some (StrCell []),
        Some (StrCell (str ''Parcelle_A1_2.jpg'')), Some (StrCell (str ''Oui'')),
        Some (StrCell (str ''Oui'')), Some (StrCell (str ''2024-05-01T10:00:00.000Z'')),
        Some (StrCell (str ''3''))]"
    using r2 row by simp
  show ?thesis
    using ne len l3 xw t1 r by simp
qed

text \<open>
  C8. Whenever \<open>saveImageToMediaLibrary\<close> returns an image reference, its \<open>assetId\<close> is
  \<open>undefined\<close> and its \<open>uri\<close> is the capture URI it was given; it returns one when the
  permission is granted and the copy, the registration in the gallery and the removal of
  the temporary copy succeed. No run of the application produces a record whose image
  has an \<open>assetId\<close>: in every reachable state no record of the three collections has
  one, and neither has the image held by the form.
\<close>

theorem gallery_save_sets_no_assetId:
  "(fst (saveImageToMediaLibrary env r imageUri imageName s) = Inr (Some m) \<longrightarrow>
      assetId m = None \<and> uri m = imageUri)
   \<and> (requestMediaPermissions env = Inr True \<and> copyAsync env = Inr () \<and>
      saveToLibraryAsync env = Inr () \<and> deleteAsync env = Inr () \<longrightarrow>
      fst (saveImageToMediaLibrary env r imageUri imageName s) =
        Inr (Some \<lparr>uri = imageUri,
                   name = str ''Parcelle_''
                   @ (if truthy (trim (numeroDeLot_st r)) then trim (numeroDeLot_st r)
                      else toString (now_name env))
                   @ str ''_'' @ toString (now_stamp env) @ str ''.jpg'',
                   assetId = None\<rparr>))
   \<and> (reachable a \<longrightarrow>
        list_all no_assetId (parcelles_st (form a))
      \<and> list_all no_assetId (parcelles_ix (index a))
      \<and> (case storage (world a) of None \<Rightarrow> True | Some ps \<Rightarrow> list_all no_assetId ps)
      \<and> image_assetId (image_st (form a)) = None)"
proof (intro conjI impI)
  assume "fst (saveImageToMediaLibrary env r imageUri imageName s) = Inr (Some m)"
  then show "assetId m = None" "uri m = imageUri"
    using saveImageToMediaLibrary_result [of env r imageUri imageName s]
    by (simp_all add: wp_alt)
next
  assume "requestMediaPermissions env = Inr True \<and> copyAsync env = Inr () \<and>
      saveToLibraryAsync env = Inr () \<and> deleteAsync env = Inr ()"
  then show "fst (saveImageToMediaLibrary env r imageUri imageName s) =
        Inr (Some \<lparr>uri = imageUri,
                   name = str ''Parcelle_''
                   @ (if truthy (trim (numeroDeLot_st r)) then trim (numeroDeLot_st r)
                      else toString (now_name env))
                   @ str ''_'' @ toString (now_stamp env) @ str ''.jpg'',
                   assetId = None\<rparr>)"
    using saveImageToMediaLibrary_ok [of env r imageUri imageName s]
    by (simp add: wp_alt)
next
  assume "reachable a"
  then have inv: "app_inv a" by (rule reachable_app_inv)
  show "list_all no_assetId (parcelles_st (form a))"
    using inv by (rule app_inv_no_assetId)
  show "list_all no_assetId (parcelles_ix (index a))"
    using inv by (rule app_inv_no_assetId)
  show "case storage (world a) of None \<Rightarrow> True | Some ps \<Rightarrow> list_all no_assetId ps"
    using inv by (rule app_inv_no_assetId)
  show "image_assetId (image_st (form a)) = None"
    using inv by (rule app_inv_no_assetId)
qed

text \<open>A record saved with a photo: the photo keeps the capture URI and has no \<open>assetId\<close>.\<close>

theorem gallery_save_sets_no_assetId_witness:
  "reachable saved_with_photo
   \<and> parcelles_st (form saved_with_photo) = [parcelle_A1\<lparr>image_p := Some photo_A1\<rparr>]
   \<and> assetId photo_A1 = None
   \<and> list_all no_assetId (parcelles_st (form saved_with_photo))
   \<and> requestMediaPermissions example_env = Inr True \<and> copyAsync example_env = Inr ()
   \<and> saveToLibraryAsync example_env = Inr () \<and> deleteAsync example_env = Inr ()
   \<and> fst (saveImageToMediaLibrary example_env example_form (str ''file:///cache/photo.jpg'')
            (str ''x.jpg'') (example_form, world initial_app)) = Inr (Some photo_A1)"
proof -
  note inst = gallery_save_sets_no_assetId [of example_env example_form "str ''file:///cache/photo.jpg''" "str ''x.jpg''"
      "(example_form, world initial_app)" _ saved_with_photo]
  have e: "requestMediaPermissions example_env = Inr True" "copyAsync example_env = Inr ()"
    "saveToLibraryAsync example_env = Inr ()" "deleteAsync example_env = Inr ()"
    by (simp_all add: example_env_def)
  have n: "str ''Parcelle_''
          @ (if truthy (trim (numeroDeLot_st example_form)) then trim (numeroDeLot_st example_form)
             else toString (now_name example_env))
          @ str ''_'' @ toString (now_stamp example_env) @ str ''.jpg'' = name photo_A1"
    by (simp add: example_form_def initial_form_def example_env_def photo_A1_def js_eval
        toString_def digits_of.simps digit_char_def)
  have "fst (saveImageToMediaLibrary example_env example_form (str ''file:///cache/photo.jpg'')
            (str ''x.jpg'') (example_form, world initial_app)) =
        Inr (Some \<lparr>uri = str ''file:///cache/photo.jpg'', name = name photo_A1, assetId = None\<rparr>)"
    using inst e by (simp only: n)
  then have s: "fst (saveImageToMediaLibrary example_env example_form (str ''file:///cache/photo.jpg'')
            (str ''x.jpg'') (example_form, world initial_app)) = Inr (Some photo_A1)"
    by (simp add: photo_A1_def)
  have l: "list_all no_assetId (parcelles_st (form saved_with_photo))"
    using inst reachable_saved_with_photo by simp
  show ?thesis
    using reachable_saved_with_photo saved_with_photo_eval e s l by (simp add: photo_A1_def)
qed

text \<open>
  C9. \<open>deleteImageFromMediaLibrary\<close> returns normally whatever the gallery does (the
  permission request or the deletion may throw, the permission may be denied) and
  touches neither the state of the screen nor the store. When the user confirms and the
  store accepts the write, \<open>deleteParcelle\<close> completes whatever the gallery does: the
  collection in memory and the stored collection are the filtered one, and the last
  alert reports success.
\<close>

theorem asset_deletion_is_best_effort:
  "fst (deleteImageFromMediaLibrary env a s) = Inr ()
   \<and> fst (snd (deleteImageFromMediaLibrary env a s)) = fst s
   \<and> storage (snd (snd (deleteImageFromMediaLibrary env a s))) = storage (snd s)
   \<and> (confirmed env \<and> ix_setItem env = Inr () \<longrightarrow>
        fst (deleteParcelle env parcelleId img (x, w)) = Inr ()
      \<and> parcelles_ix (fst (snd (deleteParcelle env parcelleId img (x, w)))) =
          filter (\<lambda>p. id_p p \<noteq> parcelleId) (parcelles_ix x)
      \<and> storage (snd (snd (deleteParcelle env parcelleId img (x, w)))) =
          Some (filter (\<lambda>p. id_p p \<noteq> parcelleId) (parcelles_ix x))
      \<and> last (trace (snd (snd (deleteParcelle env parcelleId img (x, w))))) =
          Alert msg_succes msg_supprimee)"
proof (intro conjI impI)
  note d = deleteImageFromMediaLibrary_returns [of env a s, unfolded wp_alt]
  show "fst (deleteImageFromMediaLibrary env a s) = Inr ()"
    using d by simp
  show "fst (snd (deleteImageFromMediaLibrary env a s)) = fst s"
    using d by simp
  show "storage (snd (snd (deleteImageFromMediaLibrary env a s))) = storage (snd s)"
    using d by simp
next
  assume "confirmed env \<and> ix_setItem env = Inr ()"
  then have p: "wp (deleteParcelle env parcelleId img)
      (\<lambda>res s'. res = Inr ()
         \<and> parcelles_ix (fst s') = filter (\<lambda>p. id_p p \<noteq> parcelleId) (parcelles_ix x)
         \<and> storage (snd s') = Some (filter (\<lambda>p. id_p p \<noteq> parcelleId) (parcelles_ix x))
         \<and> isDeleting_ix (fst s') = None
         \<and> last (trace (snd s')) = Alert msg_succes msg_supprimee)
      (x, w)"
    by (intro deleteParcelle_confirmed) simp_all
  show "fst (deleteParcelle env parcelleId img (x, w)) = Inr ()"
    using p by (simp add: wp_alt)
  show "parcelles_ix (fst (snd (deleteParcelle env parcelleId img (x, w)))) =
          filter (\<lambda>p. id_p p \<noteq> parcelleId) (parcelles_ix x)"
    using p by (simp add: wp_alt)
  show "storage (snd (snd (deleteParcelle env parcelleId img (x, w)))) =
          Some (filter (\<lambda>p. id_p p \<noteq> parcelleId) (parcelles_ix x))"
    using p by (simp add: wp_alt)
  show "last (trace (snd (snd (deleteParcelle env parcelleId img (x, w))))) =
          Alert msg_succes msg_supprimee"
    using p by (simp add: wp_alt)
qed

text \<open>
  The gallery throws at the permission request; the record with the asset is removed
  from the collection and from the store all the same.
\<close>

theorem asset_deletion_is_best_effort_witness:
  "confirmed gallery_fails_env \<and> ix_setItem gallery_fails_env = Inr ()
   \<and> ix_requestPermissions gallery_fails_env = Inl MediaLibraryError
   \<and> image_assetId (Some asset_image) = Some (str ''asset-7'')
   \<and> fst (deleteImageFromMediaLibrary gallery_fails_env (Some (str ''asset-7''))
            (index_with_asset, stored_with_asset)) = Inr ()
   \<and> fst (deleteParcelle gallery_fails_env (str ''3'') (Some asset_image)
            (index_with_asset, stored_with_asset)) = Inr ()
   \<and> parcelles_ix (fst (snd (deleteParcelle gallery_fails_env (str ''3'') (Some asset_image)
            (index_with_asset, stored_with_asset)))) = [parcelle_B2]
   \<and> storage (snd (snd (deleteParcelle gallery_fails_env (str ''3'') (Some asset_image)
            (index_with_asset, stored_with_asset)))) = Some [parcelle_B2]"
proof -
  have e: "confirmed gallery_fails_env" "ix_setItem gallery_fails_env = Inr ()"
    "ix_requestPermissions gallery_fails_env = Inl MediaLibraryError"
    by (simp_all add: gallery_fails_env_def)
  have i: "image_assetId (Some asset_image) = Some (str ''asset-7'')"
    by (simp add: image_assetId_def asset_image_def)
  have f: "filter (\<lambda>p. id_p p \<noteq> str ''3'') (parcelles_ix index_with_asset) = [parcelle_B2]"
    by (simp add: index_with_asset_def parcelle_B2_def parcelle_with_asset_def parcelle_A1_def
        str_def)
  show ?thesis
    using asset_deletion_is_best_effort [of gallery_fails_env "Some (str ''asset-7'')" "(index_with_asset, stored_with_asset)"
        "str ''3''" "Some asset_image" index_with_asset stored_with_asset] e i
    by (simp add: f)
qed

text \<open>
  C10. The record \<open>newParcelle\<close> that \<open>handleSave\<close> builds is normalized: its lot number,
  state, unit count, \<open>acheve\<close> and \<open>enCours\<close> each equal their own trimmed form;
  \<open>acheve\<close> and \<open>enCours\<close> are the trimmed inputs, hence the empty string when nothing
  was typed. \<open>handleSave\<close>, in both variants, leaves the collection as it is or appends
  one such record. So in every state the application can reach, every record of the
  collection of the form, of the collection of the list screen and of the stored
  collection is normalized.
\<close>

theorem form_flow_stores_trimmed_fields:
  "normalized (newParcelle env r img)
   \<and> acheve (newParcelle env r img) = trim (acheve_st r)
   \<and> enCours (newParcelle env r img) = trim (enCours_st r)
   \<and> acheve (newParcelle env (r\<lparr>acheve_st := []\<rparr>) img) = []
   \<and> enCours (newParcelle env (r\<lparr>enCours_st := []\<rparr>) img) = []
   \<and> (parcelles_st (fst (snd (handleSave env (r, w)))) = parcelles_st r \<or>
      (\<exists>i. parcelles_st (fst (snd (handleSave env (r, w)))) = parcelles_st r @ [newParcelle env r i]))
   \<and> (parcelles_st (fst (snd (handleSave_fs env (r, w)))) = parcelles_st r \<or>
      (\<exists>i. parcelles_st (fst (snd (handleSave_fs env (r, w)))) = parcelles_st r @ [newParcelle env r i]))
   \<and> (reachable a \<longrightarrow>
        list_all normalized (parcelles_st (form a))
      \<and> list_all normalized (parcelles_ix (index a))
      \<and> (case storage (world a) of None \<Rightarrow> True | Some ps \<Rightarrow> list_all normalized ps))"
proof (intro conjI impI)
  show "normalized (newParcelle env r img)"
    by (rule normalized_newParcelle)
  show "acheve (newParcelle env r img) = trim (acheve_st r)"
    by (simp add: newParcelle_def or_else_empty)
  show "enCours (newParcelle env r img) = trim (enCours_st r)"
    by (simp add: newParcelle_def or_else_empty)
  show "acheve (newParcelle env (r\<lparr>acheve_st := []\<rparr>) img) = []"
    by (simp add: newParcelle_def or_else_empty trim_def)
  show "enCours (newParcelle env (r\<lparr>enCours_st := []\<rparr>) img) = []"
    by (simp add: newParcelle_def or_else_empty trim_def)
  show "parcelles_st (fst (snd (handleSave env (r, w)))) = parcelles_st r \<or>
      (\<exists>i. parcelles_st (fst (snd (handleSave env (r, w)))) = parcelles_st r @ [newParcelle env r i])"
    using handleSave_appends [of env r w] by (simp add: wp_alt)
  show "parcelles_st (fst (snd (handleSave_fs env (r, w)))) = parcelles_st r \<or>
      (\<exists>i. parcelles_st (fst (snd (handleSave_fs env (r, w)))) = parcelles_st r @ [newParcelle env r i])"
    using handleSave_fs_appends [of env r w] by (simp add: wp_alt)
next
  assume "reachable a"
  then have inv: "app_inv a" by (rule reachable_app_inv)
  show "list_all normalized (parcelles_st (form a))"
    using inv by (rule app_inv_normalized)
  show "list_all normalized (parcelles_ix (index a))"
    using inv by (rule app_inv_normalized)
  show "case storage (world a) of None \<Rightarrow> True | Some ps \<Rightarrow> list_all normalized ps"
    using inv by (rule app_inv_normalized)
qed

text \<open>The lot number typed as \<open>A1\<close> between spaces is stored as \<open>A1\<close>.\<close>

theorem form_flow_stores_trimmed_fields_witness:
  "reachable saved_A1
   \<and> numeroDeLot_st (form (typed_A1 initial_app)) = str '' A1 ''
   \<and> newParcelle example_env (form (typed_A1 initial_app)) None = parcelle_A1
   \<and> normalized parcelle_A1
   \<and> parcelles_st (form saved_A1) = [parcelle_A1]
   \<and> list_all normalized (parcelles_st (form saved_A1))"
proof -
  note inst = form_flow_stores_trimmed_fields [of example_env "form (typed_A1 initial_app)" None "world initial_app" saved_A1]
  have "normalized (newParcelle example_env (form (typed_A1 initial_app)) None)"
    using inst by simp
  then have n: "normalized parcelle_A1"
    by (simp add: newParcelle_typed_A1)
  have l: "list_all normalized (parcelles_st (form saved_A1))"
    using inst reachable_saved_A1 by simp
  have f: "numeroDeLot_st (form (typed_A1 initial_app)) = str '' A1 ''"
    by (simp add: typed_A1_eq)
  show ?thesis
    using reachable_saved_A1 n l f by (simp add: newParcelle_typed_A1 saved_A1_eval)
qed

end
